theory Spec2Isabelle
  imports Main "HOL-Library.Sublist"
begin

section \<open>Messages, tool calls and the conversation state\<close>

text \<open>
  Strings are lists of 8-bit characters, read as the code points U+0000 to U+00FF.

  A tool call is the dictionary the model attaches to an assistant message: the keys
  \<open>name\<close>, \<open>args\<close> and \<open>id\<close>. The argument payload is itself a dictionary from
  parameter names to values of any JSON shape; it is kept as an association list read
  with \<open>map_of\<close>.
\<close>

datatype py_value =
    PyStr string
  | PyInt int
  | PyBool bool
  | PyNone
  | PyList "py_value list"
  | PyDict "(string \<times> py_value) list"

type_synonym py_dict = "(string \<times> py_value) list"

record tool_call =
  name :: string
  args :: py_dict
  id' :: string

text \<open>
  The four message classes of \<open>bot.py\<close>. Only an \<open>AIMessage\<close> has the attribute
  \<open>tool_calls\<close>; a \<open>ToolMessage\<close> is built with \<open>content\<close>, \<open>name\<close> and
  \<open>tool_call_id\<close>.
\<close>

datatype message =
    HumanMessage (content: string)
  | AIMessage (content: string) (tool_calls: "tool_call list")
  | SystemMessage (content: string)
  | ToolMessage (content: string) (msg_name: string) (tool_call_id: string)

text \<open>\<open>hasattr(m, "tool_calls")\<close>.\<close>

fun hasattr_tool_calls :: "message \<Rightarrow> bool" where
  "hasattr_tool_calls (AIMessage c tcs) = True"
| "hasattr_tool_calls (HumanMessage c) = False"
| "hasattr_tool_calls (SystemMessage c) = False"
| "hasattr_tool_calls (ToolMessage c n i) = False"

fun isinstance_HumanMessage :: "message \<Rightarrow> bool" where
  "isinstance_HumanMessage (HumanMessage c) = True"
| "isinstance_HumanMessage (AIMessage c tcs) = False"
| "isinstance_HumanMessage (SystemMessage c) = False"
| "isinstance_HumanMessage (ToolMessage c n i) = False"

text \<open>\<open>type(m).__name__\<close>, as it appears in the text of an \<open>AttributeError\<close>.\<close>

fun class_name :: "message \<Rightarrow> string" where
  "class_name (HumanMessage c) = ''HumanMessage''"
| "class_name (AIMessage c tcs) = ''AIMessage''"
| "class_name (SystemMessage c) = ''SystemMessage''"
| "class_name (ToolMessage c n i) = ''ToolMessage''"

text \<open>
  \<open>class State(TypedDict): messages: Annotated[list, add_messages]\<close>. The same
  record is the shape of a node's return value \<open>{"messages": [...]}\<close>.
\<close>

record State =
  messages :: "message list"

text \<open>
  The reducer of the \<open>messages\<close> key. The source states its behaviour in the comment on
  the field: it appends messages to the list, rather than overwriting them.
\<close>

definition add_messages :: "message list \<Rightarrow> message list \<Rightarrow> message list" where
  "add_messages left right = left @ right"

section \<open>Exceptions and effects\<close>

text \<open>
  Every \<open>raise\<close> of the source and every exception of a collaborator is a value.
  \<open>Exception\<close> stands for any other exception of class \<open>Exception\<close> raised by an external
  call, carrying its message. \<open>KeyboardInterrupt\<close> and \<open>SystemExit\<close> derive from
  \<open>BaseException\<close> only: a handler \<open>except Exception\<close> does not catch them.
\<close>

datatype exn =
    ValueError string
  | KeyError string
  | IndexError string
  | AttributeError string
  | Exception string
  | KeyboardInterrupt
  | SystemExit

text \<open>\<open>isinstance(e, Exception)\<close>.\<close>

fun isinstance_Exception :: "exn \<Rightarrow> bool" where
  "isinstance_Exception (ValueError m) = True"
| "isinstance_Exception (KeyError k) = True"
| "isinstance_Exception (IndexError m) = True"
| "isinstance_Exception (AttributeError m) = True"
| "isinstance_Exception (Exception m) = True"
| "isinstance_Exception KeyboardInterrupt = False"
| "isinstance_Exception SystemExit = False"

text \<open>
  \<open>repr\<close> of a string. The quote is the double quote when the string holds an
  apostrophe and no double quote, the apostrophe otherwise; the quote and the backslash
  are escaped with a backslash, tab, line feed and carriage return are written
  \<open>\t\<close>, \<open>\n\<close>, \<open>\r\<close>, and every other character that is not printable is written
  \<open>\xhh\<close>. Among the code points up to U+00FF the printable ones are U+0020 to U+007E
  and U+00A1 to U+00FF without U+00AD.
\<close>

definition isprintable :: "char \<Rightarrow> bool" where
  "isprintable c =
     (let n = (of_char c :: nat) in (32 \<le> n \<and> n < 127) \<or> (161 \<le> n \<and> n \<noteq> 173))"

definition hexdigit :: "nat \<Rightarrow> char" where
  "hexdigit n = ''0123456789abcdef'' ! n"

definition repr_char :: "char \<Rightarrow> char \<Rightarrow> string" where
  "repr_char quote c =
     (if c = quote \<or> c = CHR 0x5C then [CHR 0x5C, c]
      else if c = CHR 0x09 then [CHR 0x5C, CHR ''t'']
      else if c = CHR 0x0A then [CHR 0x5C, CHR ''n'']
      else if c = CHR 0x0D then [CHR 0x5C, CHR ''r'']
      else if isprintable c then [c]
      else (let n = (of_char c :: nat)
            in [CHR 0x5C, CHR ''x'', hexdigit (n div 16), hexdigit (n mod 16)]))"

definition repr :: "string \<Rightarrow> string" where
  "repr s =
     (let quote = (if CHR 0x27 \<in> set s \<and> CHR 0x22 \<notin> set s then CHR 0x22 else CHR 0x27)
      in [quote] @ concat (map (repr_char quote) s) @ [quote])"

text \<open>
  \<open>str(e)\<close>: the message of the exception; for a \<open>KeyError\<close> the \<open>repr\<close> of its key;
  empty for an exception raised without arguments.
\<close>

fun str :: "exn \<Rightarrow> string" where
  "str (ValueError m) = m"
| "str (KeyError k) = repr k"
| "str (IndexError m) = m"
| "str (AttributeError m) = m"
| "str (Exception m) = m"
| "str KeyboardInterrupt = []"
| "str SystemExit = []"

text \<open>
  The search provider and the language models are outside the program. A call to one
  of them takes the state of the outside world \<open>'w\<close> and gives back either an exception
  or a result, with the world after the call; the world is threaded through the program
  in the order of its calls.
\<close>

type_synonym ('a, 'w) io = "'w \<Rightarrow> (exn + 'a) \<times> 'w"

section \<open>The tool node\<close>

text \<open>A tool as the tool node uses it: its \<open>name\<close> and its \<open>invoke\<close>.\<close>

record 'w BaseTool =
  tool_name :: string
  invoke :: "py_dict \<Rightarrow> (string, 'w) io"

text \<open>
  \<open>BasicToolNode.__init__\<close>:
  \<open>self.tools_by_name = {tool.name: tool for tool in tools}\<close>. A later tool of the
  same name replaces an earlier one.
\<close>

definition BasicToolNode_init :: "'w BaseTool list \<Rightarrow> (string \<rightharpoonup> 'w BaseTool)" where
  "BasicToolNode_init tools = foldl (\<lambda>d tool. d(tool_name tool \<mapsto> tool)) Map.empty tools"

text \<open>
  The loop of \<open>BasicToolNode.__call__\<close> over \<open>message.tool_calls\<close>, with the list
  \<open>outputs\<close> built so far. A name missing from \<open>tools_by_name\<close> raises \<open>KeyError\<close>;
  an exception of \<open>invoke\<close> leaves the loop; both discard \<open>outputs\<close>.
\<close>

fun tool_calls_loop ::
  "(string \<rightharpoonup> 'w BaseTool) \<Rightarrow> tool_call list \<Rightarrow> message list \<Rightarrow> (message list, 'w) io" where
  "tool_calls_loop tools_by_name [] outputs w = (Inr outputs, w)"
| "tool_calls_loop tools_by_name (tc # rest) outputs w =
     (case tools_by_name (name tc) of
        None \<Rightarrow> (Inl (KeyError (name tc)), w)
      | Some tool \<Rightarrow>
          (case invoke tool (args tc) w of
             (Inl e, w') \<Rightarrow> (Inl e, w')
           | (Inr tool_result, w') \<Rightarrow>
               tool_calls_loop tools_by_name rest
                 (outputs @ [ToolMessage tool_result (name tc) (id' tc)]) w'))"

text \<open>
  \<open>BasicToolNode.__call__\<close>. \<open>inputs.get("messages", [])\<close> is the field of the state;
  an empty list raises \<open>ValueError\<close>. Reading \<open>tool_calls\<close> of a last message that
  has no such attribute raises \<open>AttributeError\<close>.
\<close>

definition BasicToolNode_call :: "(string \<rightharpoonup> 'w BaseTool) \<Rightarrow> State \<Rightarrow> (State, 'w) io" where
  "BasicToolNode_call tools_by_name inputs w =
     (if messages inputs \<noteq> [] then
        (let message = last (messages inputs) in
         if hasattr_tool_calls message then
           (case tool_calls_loop tools_by_name (tool_calls message) [] w of
              (Inl e, w') \<Rightarrow> (Inl e, w')
            | (Inr outputs, w') \<Rightarrow> (Inr \<lparr>messages = outputs\<rparr>, w'))
         else (Inl (AttributeError ([CHR 0x27] @ class_name message @ [CHR 0x27]
                  @ '' object has no attribute '' @ [CHR 0x27] @ ''tool_calls'' @ [CHR 0x27])), w))
      else (Inl (ValueError ''No message found in input''), w))"

text \<open>
  What it means for the invocations of one dispatch to return: every call of the batch
  names a registered tool, and its invocation, made in the world that the dispatch has
  reached when it comes to the call, returns a result. Nothing is asked of a tool in any
  other world.
\<close>

fun invocations_return :: "(string \<rightharpoonup> 'w BaseTool) \<Rightarrow> tool_call list \<Rightarrow> 'w \<Rightarrow> bool" where
  "invocations_return tools_by_name [] w = True"
| "invocations_return tools_by_name (tc # rest) w =
     (case tools_by_name (name tc) of
        None \<Rightarrow> False
      | Some tool \<Rightarrow>
          (case invoke tool (args tc) w of
             (Inl e, w') \<Rightarrow> False
           | (Inr tool_result, w') \<Rightarrow> invocations_return tools_by_name rest w'))"

section \<open>The routing decision\<close>

text \<open>The graph library's sentinel node names.\<close>

definition START :: string where
  "START = ''__start__''"

definition END :: string where
  "END = ''__end__''"

text \<open>\<open>route_tools\<close> accepts a bare list of messages as well as a state.\<close>

datatype route_input = ListInput "message list" | StateInput State

text \<open>
  \<open>route_tools\<close>. \<open>state[-1]\<close> on an empty list raises \<open>IndexError\<close>; a state whose
  messages are empty raises \<open>ValueError\<close>, its message ending in the state as printed. The guard
  \<open>hasattr(ai_message, "tool_calls")\<close> sends every message without tool calls, of
  whatever class, to \<open>END\<close>.
\<close>

fun route_tools :: "route_input \<Rightarrow> exn + string" where
  "route_tools (ListInput state) =
     (if state = [] then Inl (IndexError ''list index out of range'')
      else (let ai_message = last state in
            if hasattr_tool_calls ai_message \<and> length (tool_calls ai_message) > 0
            then Inr ''tools'' else Inr END))"
| "route_tools (StateInput state) =
     (if messages state \<noteq> [] then
        (let ai_message = last (messages state) in
         if hasattr_tool_calls ai_message \<and> length (tool_calls ai_message) > 0
         then Inr ''tools'' else Inr END)
      else Inl (ValueError ''No messages found in input state to tool_edge: {'messages': []}''))"

section \<open>The search tool\<close>

text \<open>
  A chat model's \<open>invoke\<close> takes the list of messages and returns an assistant message,
  given here by its content and its tool calls.
\<close>

type_synonym 'w chat_model = "message list \<Rightarrow> (string \<times> tool_call list, 'w) io"

text \<open>
  The fields of \<open>GoogleSearchTool\<close> that do work. \<open>args_schema\<close> is the class
  \<open>GoogleSearchInput\<close> as the tool library applies it to a payload before \<open>_run\<close> is
  entered: it either raises the library's validation error or yields the value of the
  field \<open>query\<close>. Which payloads it rejects, and with which exception, is the library's
  matter, so that it is a parameter here like the two collaborators.
\<close>

record 'w GoogleSearchTool =
  args_schema :: "py_dict \<Rightarrow> exn + string"
  search_wrapper :: "string \<Rightarrow> (string, 'w) io"
  summarizer_llm :: "'w chat_model"

text \<open>The f-string \<open>summary_prompt\<close> of \<open>_run\<close>, line breaks and indentation included.\<close>

definition summary_prompt :: "string \<Rightarrow> string \<Rightarrow> string" where
  "summary_prompt query raw_results =
     ''Please summarize the following Google search results for the query \"'' @ query @ ''\". \<newline>''
     @ ''            Remove redundant information, irrelevant details, and repetitive content. \<newline>''
     @ ''            Provide a clear, concise answer that directly addresses the user's question and doesn't include any other information.\<newline>''
     @ ''            \<newline>''
     @ ''            Search Results:\<newline>''
     @ ''            '' @ raw_results @ ''\<newline>''
     @ ''            \<newline>''
     @ ''            Summary:''"

text \<open>The body of the \<open>try\<close> block of \<open>_run\<close>: the two outbound calls, in order.\<close>

definition GoogleSearchTool_run_body :: "'w GoogleSearchTool \<Rightarrow> string \<Rightarrow> (string, 'w) io" where
  "GoogleSearchTool_run_body self query w =
     (case search_wrapper self query w of
        (Inl e, w1) \<Rightarrow> (Inl e, w1)
      | (Inr raw_results, w1) \<Rightarrow>
          (let summary_message = HumanMessage (summary_prompt query raw_results) in
           case summarizer_llm self [summary_message] w1 of
             (Inl e, w2) \<Rightarrow> (Inl e, w2)
           | (Inr summary_response, w2) \<Rightarrow> (Inr (fst summary_response), w2)))"

text \<open>
  \<open>GoogleSearchTool._run\<close>: \<open>try: ... except Exception as e: return f"Error searching
  Google: {str(e)}"\<close>. The handler catches the exceptions of class \<open>Exception\<close>; any
  other leaves \<open>_run\<close>.
\<close>

definition GoogleSearchTool_run :: "'w GoogleSearchTool \<Rightarrow> string \<Rightarrow> (string, 'w) io" where
  "GoogleSearchTool_run self query w =
     (case GoogleSearchTool_run_body self query w of
        (Inr summary, w') \<Rightarrow> (Inr summary, w')
      | (Inl e, w') \<Rightarrow>
          (if isinstance_Exception e then (Inr (''Error searching Google: '' @ str e), w')
           else (Inl e, w')))"

text \<open>\<open>GoogleSearchTool._arun\<close>: \<open>return self._run(query)\<close>.\<close>

definition GoogleSearchTool_arun :: "'w GoogleSearchTool \<Rightarrow> string \<Rightarrow> (string, 'w) io" where
  "GoogleSearchTool_arun self query w = GoogleSearchTool_run self query w"

text \<open>
  The tool as the tool node sees it. Its name is \<open>google_search\<close>; \<open>invoke\<close> applies
  the argument schema to the payload and hands the query to \<open>_run\<close>. A payload that
  the schema rejects raises before \<open>_run\<close> is entered, outside its \<open>try\<close>.
\<close>

definition GoogleSearchTool_invoke :: "'w GoogleSearchTool \<Rightarrow> py_dict \<Rightarrow> (string, 'w) io" where
  "GoogleSearchTool_invoke self tool_input w =
     (case args_schema self tool_input of
        Inl e \<Rightarrow> (Inl e, w)
      | Inr query \<Rightarrow> GoogleSearchTool_run self query w)"

definition google_search_tool :: "'w GoogleSearchTool \<Rightarrow> 'w BaseTool" where
  "google_search_tool self =
     \<lparr>tool_name = ''google_search'', invoke = GoogleSearchTool_invoke self\<rparr>"

section \<open>The chatbot node\<close>

definition system_message :: message where
  "system_message = SystemMessage
     (''You are a helpful AI assistant. You have memory of the entire conversation history. \<newline>''
      @ ''        Use this context to provide more relevant and personalized responses. \<newline>''
      @ ''        Be conversational and engaging while maintaining helpfulness.'')"

text \<open>
  \<open>chatbot\<close>, the node function closed over the model \<open>llm\<close>: the system message is put
  in front of the history for the call only, and the node returns the one response.
\<close>

definition chatbot :: "'w chat_model \<Rightarrow> 'a State_scheme \<Rightarrow> (State, 'w) io" where
  "chatbot llm state w =
     (let full_messages = [system_message] @ messages state in
      case llm full_messages w of
        (Inl e, w') \<Rightarrow> (Inl e, w')
      | (Inr response, w') \<Rightarrow>
          (Inr \<lparr>messages = [AIMessage (fst response) (snd response)]\<rparr>, w'))"

section \<open>The graph\<close>

text \<open>
  The graph under construction, as the builder calls of
  \<open>create_chatbot_with_memory\<close> leave it: the node functions by name, the fixed edges,
  and the conditional edges (source node, routing function, and the mapping from the
  routing function's results to node names).
\<close>

type_synonym 'w node_fn = "State \<Rightarrow> (State, 'w) io"

type_synonym branch = "string \<times> (State \<Rightarrow> exn + string) \<times> (string \<times> string) list"

record 'w StateGraph =
  nodes :: "(string \<times> 'w node_fn) list"
  edges :: "(string \<times> string) list"
  branches :: "branch list"

definition StateGraph_new :: "'w StateGraph" where
  "StateGraph_new = \<lparr>nodes = [], edges = [], branches = []\<rparr>"

definition add_node :: "string \<Rightarrow> 'w node_fn \<Rightarrow> 'w StateGraph \<Rightarrow> 'w StateGraph" where
  "add_node key action g = g\<lparr>nodes := nodes g @ [(key, action)]\<rparr>"

definition add_edge :: "string \<Rightarrow> string \<Rightarrow> 'w StateGraph \<Rightarrow> 'w StateGraph" where
  "add_edge start_key end_key g = g\<lparr>edges := edges g @ [(start_key, end_key)]\<rparr>"

definition add_conditional_edges ::
  "string \<Rightarrow> (State \<Rightarrow> exn + string) \<Rightarrow> (string \<times> string) list \<Rightarrow> 'w StateGraph \<Rightarrow> 'w StateGraph" where
  "add_conditional_edges source path path_map g =
     g\<lparr>branches := branches g @ [(source, path, path_map)]\<rparr>"

text \<open>
  \<open>create_chatbot_with_memory\<close>, from "Set up Google Search as a tool" on, with the
  builder calls in the order of the source. The two collaborators it constructs are
  its parameters: the chat model \<open>llm\<close> (with the tools bound) and the search tool.
  Reading the credentials from the environment is left out.
\<close>

definition create_chatbot_with_memory :: "'w chat_model \<Rightarrow> 'w GoogleSearchTool \<Rightarrow> 'w StateGraph" where
  "create_chatbot_with_memory llm search =
     (let tool_node = BasicToolNode_call (BasicToolNode_init [google_search_tool search]);
          graph_builder = StateGraph_new;
          graph_builder = add_node ''chatbot'' (chatbot llm) graph_builder;
          graph_builder = add_node ''tools'' tool_node graph_builder;
          graph_builder = add_conditional_edges ''chatbot'' (\<lambda>state. route_tools (StateInput state))
                            [(''tools'', ''tools''), (END, END)] graph_builder;
          graph_builder = add_edge ''tools'' ''chatbot'' graph_builder;
          graph_builder = add_edge START ''chatbot'' graph_builder;
          graph_builder = add_edge ''chatbot'' END graph_builder
      in graph_builder)"

subsection \<open>Running a compiled graph\<close>

text \<open>
  The graph library runs a compiled graph in steps. In a step every active node is
  called on the state as it stands when the step begins, and the update it returns is
  merged into the state by the reducer of the key. The nodes active in the next step
  are the targets of the fixed edges that leave the nodes that ran, and the targets
  that their conditional edges choose on the state with the node's update applied.
  \<open>END\<close> is not a node: an edge to it activates nothing, and the run is over once no
  node is active. After every step the events of the step are handed to the consumer
  of the stream before the next step begins. Once \<open>recursion_limit\<close> steps have been
  taken the library raises \<open>GraphRecursionError\<close>, an exception of class \<open>Exception\<close>,
  whether or not a node is still active.
\<close>

definition apply_update :: "'a State_scheme \<Rightarrow> State \<Rightarrow> 'a State_scheme" where
  "apply_update state update =
     state\<lparr>messages := add_messages (messages state) (messages update)\<rparr>"

fun run_branches :: "branch list \<Rightarrow> string \<Rightarrow> State \<Rightarrow> exn + string list" where
  "run_branches [] n state = Inr []"
| "run_branches ((source, path, path_map) # bs) n state =
     (if source = n then
        (case path state of
           Inl e \<Rightarrow> Inl e
         | Inr r \<Rightarrow>
             (case map_of path_map r of
                None \<Rightarrow> Inl (KeyError r)
              | Some t \<Rightarrow>
                  (case run_branches bs n state of
                     Inl e \<Rightarrow> Inl e
                   | Inr ts \<Rightarrow> Inr (t # ts))))
      else run_branches bs n state)"

definition targets :: "'w StateGraph \<Rightarrow> string \<Rightarrow> State \<Rightarrow> exn + string list" where
  "targets g n state =
     (case run_branches (branches g) n state of
        Inl e \<Rightarrow> Inl e
      | Inr ts \<Rightarrow> Inr ([end_key. (start_key, end_key) \<leftarrow> edges g, start_key = n] @ ts))"

text \<open>
  The active nodes of one step, run in order on the same state; the result is the list
  of events \<open>(node, update)\<close> and the targets chosen.
\<close>

fun run_active ::
  "'w StateGraph \<Rightarrow> string list \<Rightarrow> State \<Rightarrow> ((string \<times> State) list \<times> string list, 'w) io" where
  "run_active g [] state w = (Inr ([], []), w)"
| "run_active g (n # ns) state w =
     (case map_of (nodes g) n of
        None \<Rightarrow> (Inl (KeyError n), w)
      | Some action \<Rightarrow>
          (case action state w of
             (Inl e, w1) \<Rightarrow> (Inl e, w1)
           | (Inr update, w1) \<Rightarrow>
               (case targets g n (apply_update state update) of
                  Inl e \<Rightarrow> (Inl e, w1)
                | Inr ts \<Rightarrow>
                    (case run_active g ns state w1 of
                       (Inl e, w2) \<Rightarrow> (Inl e, w2)
                     | (Inr (events, next), w2) \<Rightarrow> (Inr ((n, update) # events, ts @ next), w2)))))"

text \<open>One step: the events, the state after them, and the nodes active next.\<close>

definition superstep ::
  "'w StateGraph \<Rightarrow> string list \<Rightarrow> State \<Rightarrow> ((string \<times> State) list \<times> State \<times> string list, 'w) io" where
  "superstep g active state w =
     (case run_active g active state w of
        (Inl e, w') \<Rightarrow> (Inl e, w')
      | (Inr (events, next), w') \<Rightarrow>
          (Inr (events, foldl apply_update state (map snd events),
                remdups (filter (\<lambda>t. t \<noteq> END) next)), w'))"

text \<open>
  How a stream ends: it is exhausted, with the final state of the graph; an exception
  is raised by a node, by a routing function or by the consumer of the events; or the
  library raises \<open>GraphRecursionError\<close>.
\<close>

datatype stream_end = Exhausted State | Raised exn | RecursionLimit

text \<open>
  The consumer is the body of the \<open>for\<close> loop over the stream, a function from an event
  and what the consumer has accumulated so far to the new accumulation, or to the
  exception it raises. An exception of the consumer ends the stream where it stands:
  the steps not yet taken are never taken.
\<close>

fun feed :: "('e \<Rightarrow> 'a \<Rightarrow> exn + 'a) \<Rightarrow> 'e list \<Rightarrow> 'a \<Rightarrow> 'a \<times> exn option" where
  "feed f [] acc = (acc, None)"
| "feed f (event # events) acc =
     (case f event acc of
        Inl e \<Rightarrow> (acc, Some e)
      | Inr acc' \<Rightarrow> feed f events acc')"

fun stream_fold ::
  "'w StateGraph \<Rightarrow> nat \<Rightarrow> string list \<Rightarrow> State \<Rightarrow> (string \<times> State \<Rightarrow> 'a \<Rightarrow> exn + 'a) \<Rightarrow> 'a \<Rightarrow> 'w
     \<Rightarrow> ('a \<times> stream_end) \<times> 'w" where
  "stream_fold g 0 active state f acc w = ((acc, RecursionLimit), w)"
| "stream_fold g (Suc k) active state f acc w =
     (if active = [] then ((acc, Exhausted state), w)
      else
        (case superstep g active state w of
           (Inl e, w') \<Rightarrow> ((acc, Raised e), w')
         | (Inr (events, state', next), w') \<Rightarrow>
             (case feed f events acc of
                (acc', Some e) \<Rightarrow> ((acc', Raised e), w')
              | (acc', None) \<Rightarrow> stream_fold g k next state' f acc' w')))"

text \<open>
  \<open>for event in graph.stream(input): ...\<close>: the input's messages enter the state
  through the reducer, and the first active nodes are the targets of the edges from
  \<open>START\<close>.
\<close>

definition stream_into ::
  "'w StateGraph \<Rightarrow> nat \<Rightarrow> State \<Rightarrow> (string \<times> State \<Rightarrow> 'a \<Rightarrow> exn + 'a) \<Rightarrow> 'a \<Rightarrow> 'w
     \<Rightarrow> ('a \<times> stream_end) \<times> 'w" where
  "stream_into g recursion_limit input f acc w =
     stream_fold g recursion_limit
       (remdups (filter (\<lambda>t. t \<noteq> END) [end_key. (start_key, end_key) \<leftarrow> edges g, start_key = START]))
       \<lparr>messages = add_messages [] (messages input)\<rparr> f acc w"

text \<open>The stream read to its end, as the list of its events.\<close>

definition stream ::
  "'w StateGraph \<Rightarrow> nat \<Rightarrow> State \<Rightarrow> 'w \<Rightarrow> ((string \<times> State) list \<times> stream_end) \<times> 'w" where
  "stream g recursion_limit input w =
     stream_into g recursion_limit input (\<lambda>event events. Inr (events @ [event])) [] w"

text \<open>
  The order of the events that the control flow Decision, Dispatch, Decision, ...
  allows, from the node expected first: a chatbot event is followed by nothing or, if
  its message has tool calls, by a tools event; a tools event is followed by nothing or
  by a chatbot event.
\<close>

fun flow :: "string \<Rightarrow> (string \<times> State) list \<Rightarrow> bool" where
  "flow expected [] = True"
| "flow expected ((node, update) # events) =
     (node = expected \<and>
      (if node = ''chatbot'' then
         (events = [] \<or>
          (messages update \<noteq> [] \<and> hasattr_tool_calls (last (messages update)) \<and>
           tool_calls (last (messages update)) \<noteq> [])) \<and>
         flow ''tools'' events
       else flow ''chatbot'' events))"

text \<open>
  The last event is a chatbot event whose message has no tool calls: the Decision Step
  has emitted a final answer.
\<close>

definition ends_with_answer :: "(string \<times> State) list \<Rightarrow> bool" where
  "ends_with_answer events =
     (events \<noteq> [] \<and> fst (last events) = ''chatbot'' \<and>
      messages (snd (last events)) \<noteq> [] \<and>
      hasattr_tool_calls (last (messages (snd (last events)))) \<and>
      tool_calls (last (messages (snd (last events)))) = [])"

section \<open>The interactive loop\<close>

text \<open>
  \<open>str.strip()\<close> and \<open>str.lower()\<close> on the code points up to U+00FF: the white space
  there is U+0009 to U+000D, U+001C to U+0020, U+0085 and U+00A0; the letters with a
  lower-case form are A to Z and U+00C0 to U+00DE without U+00D7, each 32 below its
  lower-case form.
\<close>

definition isspace :: "char \<Rightarrow> bool" where
  "isspace c = (c \<in> set [CHR 0x09, CHR 0x0A, CHR 0x0B, CHR 0x0C, CHR 0x0D,
                          CHR 0x1C, CHR 0x1D, CHR 0x1E, CHR 0x1F, CHR 0x20,
                          CHR 0x85, CHR 0xA0])"

definition strip :: "string \<Rightarrow> string" where
  "strip s = rev (dropWhile isspace (rev (dropWhile isspace s)))"

definition lower_char :: "char \<Rightarrow> char" where
  "lower_char c =
     (let n = (of_char c :: nat)
      in if (65 \<le> n \<and> n \<le> 90) \<or> (192 \<le> n \<and> n \<le> 222 \<and> n \<noteq> 215) then char_of (n + 32)
         else c)"

definition lower :: "string \<Rightarrow> string" where
  "lower s = map lower_char s"

text \<open>The decimal numeral of a natural number, as the f-string prints the index.\<close>

fun str_nat :: "nat \<Rightarrow> string" where
  "str_nat n =
     (if n < 10 then [char_of (48 + n)]
      else str_nat (n div 10) @ [char_of (48 + n mod 10)])"

declare str_nat.simps [simp del]

text \<open>
  The lines the \<open>history\<close> command prints between its two rules, one per message of the
  conversation state: index from 1, role, and the content cut at 100 characters.
\<close>

definition history_line :: "nat \<Rightarrow> message \<Rightarrow> string" where
  "history_line i msg =
     (let role = (if isinstance_HumanMessage msg then ''You'' else ''Assistant'');
          content' = (if length (content msg) > 100 then take 100 (content msg) @ ''...''
                      else content msg)
      in str_nat i @ ''. '' @ role @ '': '' @ content')"

definition history_lines :: "message list \<Rightarrow> string list" where
  "history_lines msgs = map (\<lambda>(i, msg). history_line i msg) (zip [1 ..< Suc (length msgs)] msgs)"

text \<open>
  The body of the loops over the stream in \<open>run_interactive_chatbot\<close>:
  \<open>ai_message = value["messages"][-1]\<close>, then
  \<open>conversation_state["messages"].append(ai_message)\<close>. An update with no message
  raises \<open>IndexError\<close>.
\<close>

definition append_last :: "string \<times> State \<Rightarrow> State \<Rightarrow> exn + State" where
  "append_last event conversation_state =
     (let v = snd event in
      if messages v = [] then Inl (IndexError ''list index out of range'')
      else Inr (conversation_state\<lparr>messages := messages conversation_state @ [last (messages v)]\<rparr>))"

text \<open>
  One pass through the body of \<open>while True\<close> in \<open>run_interactive_chatbot\<close>, on the line
  that \<open>input\<close> returned: whether the loop is left, goes on, or is left by an exception
  that no handler catches; the conversation state after the pass; and the history
  listing if one was printed. The handlers are tried in the order of the source:
  \<open>except KeyboardInterrupt\<close> leaves the loop, \<open>except Exception\<close> goes on.
\<close>

datatype control = Break | Continue | Propagate exn

definition loop_body ::
  "'w StateGraph \<Rightarrow> nat \<Rightarrow> State \<Rightarrow> string \<Rightarrow> 'w \<Rightarrow> (control \<times> State \<times> string list option) \<times> 'w" where
  "loop_body chatbot' recursion_limit conversation_state line w =
     (let user_input = strip line in
      if lower user_input \<in> set [''quit'', ''exit'', ''q''] then ((Break, conversation_state, None), w)
      else if lower user_input = ''clear'' then ((Continue, \<lparr>messages = []\<rparr>, None), w)
      else if lower user_input = ''history'' then
        ((Continue, conversation_state, Some (history_lines (messages conversation_state))), w)
      else if user_input = [] then ((Continue, conversation_state, None), w)
      else
        (let human_message = HumanMessage user_input;
             conversation_state =
               conversation_state\<lparr>messages := messages conversation_state @ [human_message]\<rparr>
         in case stream_into chatbot' recursion_limit conversation_state append_last conversation_state w of
              ((conversation_state', Raised e), w') \<Rightarrow>
                (if e = KeyboardInterrupt then ((Break, conversation_state', None), w')
                 else if isinstance_Exception e then ((Continue, conversation_state', None), w')
                 else ((Propagate e, conversation_state', None), w'))
            | ((conversation_state', Exhausted final), w') \<Rightarrow> ((Continue, conversation_state', None), w')
            | ((conversation_state', RecursionLimit), w') \<Rightarrow> ((Continue, conversation_state', None), w')))"

text \<open>
  The loop over the lines typed, from a given conversation state: how the loop was
  left (\<open>Continue\<close> when the lines ran out first), the conversation state then, and the
  history listings printed.
\<close>

fun interactive_loop ::
  "'w StateGraph \<Rightarrow> nat \<Rightarrow> string list \<Rightarrow> State \<Rightarrow> 'w \<Rightarrow> (control \<times> State \<times> string list list) \<times> 'w" where
  "interactive_loop chatbot' recursion_limit [] conversation_state w =
     ((Continue, conversation_state, []), w)"
| "interactive_loop chatbot' recursion_limit (line # lines) conversation_state w =
     (case loop_body chatbot' recursion_limit conversation_state line w of
        ((Continue, conversation_state', shown), w') \<Rightarrow>
          (case interactive_loop chatbot' recursion_limit lines conversation_state' w' of
             ((ctl, final, listings), w'') \<Rightarrow>
               ((ctl, final, (case shown of None \<Rightarrow> [] | Some listing \<Rightarrow> [listing]) @ listings), w''))
      | ((ctl, conversation_state', shown), w') \<Rightarrow> ((ctl, conversation_state', []), w'))"

text \<open>\<open>run_interactive_chatbot\<close> begins with \<open>conversation_state = {"messages": []}\<close>.\<close>

definition run_interactive_chatbot ::
  "'w StateGraph \<Rightarrow> nat \<Rightarrow> string list \<Rightarrow> 'w \<Rightarrow> (control \<times> State \<times> string list list) \<times> 'w" where
  "run_interactive_chatbot chatbot' recursion_limit lines w =
     interactive_loop chatbot' recursion_limit lines \<lparr>messages = []\<rparr> w"

section \<open>Example collaborators\<close>

text \<open>
  Concrete collaborators for the examples below. Their world is a counter of the
  outbound calls made so far.
\<close>

definition failing_search :: "string \<Rightarrow> (string, nat) io" where
  "failing_search query w = (Inl (Exception ''quota exceeded''), Suc w)"

definition interrupted_search :: "string \<Rightarrow> (string, nat) io" where
  "interrupted_search query w = (Inl KeyboardInterrupt, Suc w)"

definition fixed_search :: "string \<Rightarrow> (string, nat) io" where
  "fixed_search query w = (Inr ''The Space Needle is 605 ft tall.'', Suc w)"

definition failing_llm :: "nat chat_model" where
  "failing_llm msgs w = (Inl (Exception ''deadline exceeded''), Suc w)"

definition final_llm :: "nat chat_model" where
  "final_llm msgs w = (Inr (''605 ft'', []), Suc w)"

text \<open>
  A schema check that accepts a payload whose \<open>query\<close> is a string and rejects every
  other payload.
\<close>

definition string_query :: "py_dict \<Rightarrow> exn + string" where
  "string_query tool_input =
     (case map_of tool_input ''query'' of
        Some (PyStr query) \<Rightarrow> Inr query
      | _ \<Rightarrow> Inl (ValueError ''query: a string is required''))"

text \<open>
  A tool whose \<open>invoke\<close> raises; a tool that returns on its first invocation only; and
  a well-formed request for the search tool.
\<close>

definition failing_tool :: "nat BaseTool" where
  "failing_tool =
     \<lparr>tool_name = ''lookup'',
      invoke = (\<lambda>tool_input w. (Inl (Exception ''connection refused''), Suc w))\<rparr>"

definition flaky_tool :: "nat BaseTool" where
  "flaky_tool =
     \<lparr>tool_name = ''lookup'',
      invoke = (\<lambda>tool_input w. (if w = 0 then Inr ''412 pages'' else Inl (Exception ''rate limited''), Suc w))\<rparr>"

definition search_request :: "string \<Rightarrow> string \<Rightarrow> tool_call" where
  "search_request query call_id =
     \<lparr>name = ''google_search'', args = [(''query'', PyStr query)], id' = call_id\<rparr>"

text \<open>
  The search tool with a working provider and model, with a failing provider, with a
  failing summarizing model, and with a provider call interrupted from the keyboard.
\<close>

definition working_search_tool :: "nat GoogleSearchTool" where
  "working_search_tool =
     \<lparr>args_schema = string_query, search_wrapper = fixed_search, summarizer_llm = final_llm\<rparr>"

definition failing_search_tool :: "nat GoogleSearchTool" where
  "failing_search_tool =
     \<lparr>args_schema = string_query, search_wrapper = failing_search, summarizer_llm = final_llm\<rparr>"

definition failing_summarizer_tool :: "nat GoogleSearchTool" where
  "failing_summarizer_tool =
     \<lparr>args_schema = string_query, search_wrapper = fixed_search, summarizer_llm = failing_llm\<rparr>"

definition interrupted_search_tool :: "nat GoogleSearchTool" where
  "interrupted_search_tool =
     \<lparr>args_schema = string_query, search_wrapper = interrupted_search, summarizer_llm = final_llm\<rparr>"

text \<open>A model that answers only when the first message it is sent is the system message.\<close>

definition persona_llm :: "nat chat_model" where
  "persona_llm msgs w =
     (if msgs \<noteq> [] \<and> hd msgs = system_message then (Inr (''605 ft'', []), Suc w)
      else (Inl (Exception ''no instruction''), Suc w))"

text \<open>
  A model that asks for one search as long as the last message it is sent is not a tool
  message, and answers once it is.
\<close>

definition searching_llm :: "nat chat_model" where
  "searching_llm msgs w =
     (case last msgs of
        ToolMessage c n i \<Rightarrow> (Inr (''605 ft'', []), Suc w)
      | _ \<Rightarrow> (Inr ('''', [search_request ''space needle height'' ''call_1'']), Suc w))"

text \<open>Requests for a tool named \<open>lookup\<close> and for a tool named \<open>calculator\<close>.\<close>

definition lookup_request :: "string \<Rightarrow> string \<Rightarrow> tool_call" where
  "lookup_request title call_id = \<lparr>name = ''lookup'', args = [(''title'', PyStr title)], id' = call_id\<rparr>"

definition calculator_request :: "string \<Rightarrow> string \<Rightarrow> tool_call" where
  "calculator_request expression call_id =
     \<lparr>name = ''calculator'', args = [(''expression'', PyStr expression)], id' = call_id\<rparr>"

text \<open>
  The events of a run in which the model asks for one search and then answers, and a
  conversation state of two turns.
\<close>

definition space_needle_events :: "(string \<times> State) list" where
  "space_needle_events =
     [(''chatbot'', \<lparr>messages = [AIMessage '''' [search_request ''space needle height'' ''call_1'']]\<rparr>),
      (''tools'', \<lparr>messages = [ToolMessage ''605 ft'' ''google_search'' ''call_1'']\<rparr>),
      (''chatbot'', \<lparr>messages = [AIMessage ''605 ft'' []]\<rparr>)]"

definition small_talk :: State where
  "small_talk = \<lparr>messages = [HumanMessage ''hi'', AIMessage ''hello'' []]\<rparr>"

section \<open>The tool node: properties\<close>

text \<open>
  The loop over the tool calls, by induction on the calls with the accumulator and the
  world generalised: it returns one tool message per call exactly when the invocations
  of the dispatch return, and it raises \<open>KeyError\<close> for a name that is not registered
  when the invocations before it returned.
\<close>

lemma tool_calls_loop_returns:
  "invocations_return tools_by_name tcs w \<Longrightarrow>
   \<exists>outs w'. tool_calls_loop tools_by_name tcs acc w = (Inr (acc @ outs), w') \<and>
     list_all2 (\<lambda>tc m. \<exists>r. m = ToolMessage r (name tc) (id' tc)) tcs outs"
proof (induction tcs arbitrary: acc w)
  case Nil
  then show ?case by simp
next
  case (Cons tc rest)
  from Cons.prems obtain tool where t: "tools_by_name (name tc) = Some tool"
    by (cases "tools_by_name (name tc)") auto
  obtain res w1 where i: "invoke tool (args tc) w = (res, w1)"
    by (cases "invoke tool (args tc) w")
  from Cons.prems t i obtain r where r: "res = Inr r" and rest: "invocations_return tools_by_name rest w1"
    by (cases res) auto
  from Cons.IH [OF rest, of "acc @ [ToolMessage r (name tc) (id' tc)]"]
  obtain outs w' where
    l: "tool_calls_loop tools_by_name rest (acc @ [ToolMessage r (name tc) (id' tc)]) w1
          = (Inr ((acc @ [ToolMessage r (name tc) (id' tc)]) @ outs), w')"
    and a: "list_all2 (\<lambda>tc m. \<exists>r. m = ToolMessage r (name tc) (id' tc)) rest outs" by blast
  have "tool_calls_loop tools_by_name (tc # rest) acc w
          = (Inr (acc @ (ToolMessage r (name tc) (id' tc) # outs)), w')"
    using t i r l by simp
  moreover have "list_all2 (\<lambda>tc m. \<exists>r. m = ToolMessage r (name tc) (id' tc)) (tc # rest)
          (ToolMessage r (name tc) (id' tc) # outs)"
    using a by simp
  ultimately show ?case by blast
qed

lemma tool_calls_loop_raises:
  "\<not> invocations_return tools_by_name tcs w \<Longrightarrow>
   \<exists>e w'. tool_calls_loop tools_by_name tcs acc w = (Inl e, w')"
proof (induction tcs arbitrary: acc w)
  case Nil
  then show ?case by simp
next
  case (Cons tc rest)
  show ?case
  proof (cases "tools_by_name (name tc)")
    case None
    then show ?thesis by simp
  next
    case (Some tool)
    obtain res w1 where i: "invoke tool (args tc) w = (res, w1)"
      by (cases "invoke tool (args tc) w")
    show ?thesis
    proof (cases res)
      case (Inl e)
      then show ?thesis using Some i by simp
    next
      case (Inr r)
      with Cons.prems Some i have "\<not> invocations_return tools_by_name rest w1" by simp
      from Cons.IH [OF this] show ?thesis using Some i Inr by simp
    qed
  qed
qed

lemma tool_calls_loop_unknown:
  "tools_by_name (name tc) = None \<Longrightarrow> invocations_return tools_by_name before w \<Longrightarrow>
   \<exists>w'. tool_calls_loop tools_by_name (before @ tc # after) acc w = (Inl (KeyError (name tc)), w')"
proof (induction before arbitrary: acc w)
  case Nil
  then show ?case by simp
next
  case (Cons b before)
  from Cons.prems(2) obtain tool where t: "tools_by_name (name b) = Some tool"
    by (cases "tools_by_name (name b)") auto
  obtain res w1 where i: "invoke tool (args b) w = (res, w1)"
    by (cases "invoke tool (args b) w")
  from Cons.prems(2) t i obtain r where r: "res = Inr r"
    and rest: "invocations_return tools_by_name before w1"
    by (cases res) auto
  from Cons.IH [OF Cons.prems(1) rest] show ?case using t i r by simp
qed

lemma unknown_not_return:
  "tools_by_name (name tc) = None \<Longrightarrow> \<not> invocations_return tools_by_name (before @ tc # after) w"
proof (induction before arbitrary: w)
  case Nil
  then show ?case by simp
next
  case (Cons b before)
  then show ?case by (auto split: option.splits prod.splits sum.splits)
qed

lemma invocations_return_total_all:
  "\<forall>tc \<in> set tcs. \<exists>tool. tools_by_name (name tc) = Some tool \<and>
       (\<forall>v. \<exists>r v'. invoke tool (args tc) v = (Inr r, v')) \<Longrightarrow>
   \<forall>w. invocations_return tools_by_name tcs w"
proof (induction tcs)
  case Nil
  then show ?case by simp
next
  case (Cons tc rest)
  from Cons.prems obtain tool where t: "tools_by_name (name tc) = Some tool"
    and r: "\<forall>v. \<exists>r v'. invoke tool (args tc) v = (Inr r, v')" by auto
  from Cons.prems have "\<forall>tc \<in> set rest. \<exists>tool. tools_by_name (name tc) = Some tool \<and>
       (\<forall>v. \<exists>r v'. invoke tool (args tc) v = (Inr r, v'))" by simp
  from Cons.IH [OF this] have ih: "\<forall>w. invocations_return tools_by_name rest w" .
  show ?case
  proof
    fix w
    from r obtain res w1 where i: "invoke tool (args tc) w = (Inr res, w1)" by blast
    show "invocations_return tools_by_name (tc # rest) w"
      using t i ih by simp
  qed
qed

lemma invocations_return_total:
  "\<forall>tc \<in> set tcs. \<exists>tool. tools_by_name (name tc) = Some tool \<and>
       (\<forall>v. \<exists>r v'. invoke tool (args tc) v = (Inr r, v')) \<Longrightarrow>
   invocations_return tools_by_name tcs w"
  using invocations_return_total_all by blast

lemma BasicToolNode_call_last:
  "messages inputs = earlier @ [AIMessage c tcs] \<Longrightarrow>
   BasicToolNode_call tools_by_name inputs w =
     (case tool_calls_loop tools_by_name tcs [] w of
        (Inl e, w') \<Rightarrow> (Inl e, w')
      | (Inr outputs, w') \<Rightarrow> (Inr \<lparr>messages = outputs\<rparr>, w'))"
  by (simp add: BasicToolNode_call_def)

text \<open>
  C1 (as amended). For every state whose last message is an assistant message with the
  tool calls \<open>tcs\<close>: if every call names a registered tool and every invocation of this
  dispatch returns a result, the tool node returns exactly \<open>length tcs\<close> tool messages,
  in the order of the calls, the message of each call carrying that call's name and id.
  If an invocation of this dispatch raises, or a name is not registered, the tool node
  raises and returns nothing. Tools that return in every world are a special case.
\<close>

theorem dispatch_one_result_per_request:
  assumes "messages inputs = earlier @ [AIMessage c tcs]"
  shows "(invocations_return tools_by_name tcs w \<longrightarrow>
            (\<exists>outputs w'.
               BasicToolNode_call tools_by_name inputs w = (Inr \<lparr>messages = outputs\<rparr>, w') \<and>
               length outputs = length tcs \<and>
               list_all2 (\<lambda>tc m. \<exists>r. m = ToolMessage r (name tc) (id' tc)) tcs outputs)) \<and>
         (\<not> invocations_return tools_by_name tcs w \<longrightarrow>
            (\<exists>e w'. BasicToolNode_call tools_by_name inputs w = (Inl e, w'))) \<and>
         ((\<forall>tc \<in> set tcs. \<exists>tool. tools_by_name (name tc) = Some tool \<and>
              (\<forall>v. \<exists>r v'. invoke tool (args tc) v = (Inr r, v')))
            \<longrightarrow> invocations_return tools_by_name tcs w)"
proof (intro conjI impI)
  assume "invocations_return tools_by_name tcs w"
  from tool_calls_loop_returns [OF this, of "[]"]
  obtain outs w' where l: "tool_calls_loop tools_by_name tcs [] w = (Inr outs, w')"
    and a: "list_all2 (\<lambda>tc m. \<exists>r. m = ToolMessage r (name tc) (id' tc)) tcs outs"
    by auto
  have "BasicToolNode_call tools_by_name inputs w = (Inr \<lparr>messages = outs\<rparr>, w')"
    using BasicToolNode_call_last [OF assms, of tools_by_name w] l by simp
  moreover have "length outs = length tcs"
    using a by (simp add: list_all2_lengthD)
  ultimately show "\<exists>outputs w'.
               BasicToolNode_call tools_by_name inputs w = (Inr \<lparr>messages = outputs\<rparr>, w') \<and>
               length outputs = length tcs \<and>
               list_all2 (\<lambda>tc m. \<exists>r. m = ToolMessage r (name tc) (id' tc)) tcs outputs"
    using a by blast
next
  assume "\<not> invocations_return tools_by_name tcs w"
  from tool_calls_loop_raises [OF this, of "[]"]
  obtain e w' where "tool_calls_loop tools_by_name tcs [] w = (Inl e, w')" by blast
  then have "BasicToolNode_call tools_by_name inputs w = (Inl e, w')"
    using BasicToolNode_call_last [OF assms, of tools_by_name w] by simp
  then show "\<exists>e w'. BasicToolNode_call tools_by_name inputs w = (Inl e, w')" by blast
next
  assume "\<forall>tc \<in> set tcs. \<exists>tool. tools_by_name (name tc) = Some tool \<and>
              (\<forall>v. \<exists>r v'. invoke tool (args tc) v = (Inr r, v'))"
  then show "invocations_return tools_by_name tcs w"
    by (rule invocations_return_total)
qed

text \<open>
  An instance: the first tool returns in the world of this dispatch only and would raise
  in any other; the second is the program's search tool. Two requests give two tool
  messages.
\<close>

lemma flaky_batch_returns:
  "invocations_return (BasicToolNode_init [flaky_tool, google_search_tool working_search_tool])
     [lookup_request ''Dune'' ''call_1'', search_request ''dune page count'' ''call_2''] 0"
  by (simp add: BasicToolNode_init_def flaky_tool_def google_search_tool_def working_search_tool_def
      lookup_request_def search_request_def GoogleSearchTool_invoke_def string_query_def
      GoogleSearchTool_run_def GoogleSearchTool_run_body_def fixed_search_def final_llm_def)

theorem dispatch_one_result_per_request_witness:
  "\<exists>outputs w'.
     BasicToolNode_call (BasicToolNode_init [flaky_tool, google_search_tool working_search_tool])
       \<lparr>messages = [HumanMessage ''How long is Dune?'',
                    AIMessage '''' [lookup_request ''Dune'' ''call_1'',
                                    search_request ''dune page count'' ''call_2'']]\<rparr> 0
       = (Inr \<lparr>messages = outputs\<rparr>, w') \<and>
     length outputs = length [lookup_request ''Dune'' ''call_1'', search_request ''dune page count'' ''call_2''] \<and>
     list_all2 (\<lambda>tc m. \<exists>r. m = ToolMessage r (name tc) (id' tc))
       [lookup_request ''Dune'' ''call_1'', search_request ''dune page count'' ''call_2'']
       outputs"
proof -
  let ?tcs = "[lookup_request ''Dune'' ''call_1'', search_request ''dune page count'' ''call_2'']"
  let ?inputs = "\<lparr>messages = [HumanMessage ''How long is Dune?'', AIMessage '''' ?tcs]\<rparr>"
  have h: "messages ?inputs = [HumanMessage ''How long is Dune?''] @ [AIMessage '''' ?tcs]"
    by simp
  from dispatch_one_result_per_request [OF h, THEN conjunct1, THEN mp, OF flaky_batch_returns]
  show ?thesis .
qed

text \<open>
  Without the condition on the invocations the statement fails: the tool node has no
  handler of its own, so a registered tool that raises ends the dispatch with that
  exception and no tool message is returned.
\<close>

theorem dispatch_raising_tool_counterexample:
  "BasicToolNode_init [failing_tool] ''lookup'' = Some failing_tool \<and>
   BasicToolNode_call (BasicToolNode_init [failing_tool])
     \<lparr>messages = [HumanMessage ''How long is Dune?'',
                  AIMessage '''' [lookup_request ''Dune'' ''call_1'']]\<rparr> 0
   = (Inl (Exception ''connection refused''), 1)"
  by (simp add: BasicToolNode_init_def BasicToolNode_call_def failing_tool_def lookup_request_def)

text \<open>
  C4 (as amended). For every batch that contains a call whose name is not in the
  registry, the tool node raises and returns no tool message at all. The exception is
  \<open>KeyError\<close> for the absent name whenever the invocations that this dispatch makes
  for the calls before it return.
\<close>

theorem dispatch_unknown_tool:
  assumes "messages inputs = earlier @ [AIMessage c (before @ tc # after)]"
    and "tools_by_name (name tc) = None"
  shows "(\<exists>e w'. BasicToolNode_call tools_by_name inputs w = (Inl e, w')) \<and>
         (invocations_return tools_by_name before w
            \<longrightarrow> (\<exists>w'. BasicToolNode_call tools_by_name inputs w = (Inl (KeyError (name tc)), w')))"
proof
  have "\<not> invocations_return tools_by_name (before @ tc # after) w"
    using assms(2) by (rule unknown_not_return)
  from tool_calls_loop_raises [OF this, of "[]"]
  obtain e w' where "tool_calls_loop tools_by_name (before @ tc # after) [] w = (Inl e, w')"
    by blast
  then have "BasicToolNode_call tools_by_name inputs w = (Inl e, w')"
    using BasicToolNode_call_last [OF assms(1), of tools_by_name w] by simp
  then show "\<exists>e w'. BasicToolNode_call tools_by_name inputs w = (Inl e, w')" by blast
next
  show "invocations_return tools_by_name before w
          \<longrightarrow> (\<exists>w'. BasicToolNode_call tools_by_name inputs w = (Inl (KeyError (name tc)), w'))"
  proof
    assume "invocations_return tools_by_name before w"
    from tool_calls_loop_unknown [where tools_by_name = tools_by_name and tc = tc,
        OF assms(2) this, of after "[]"]
    obtain w' where
      "tool_calls_loop tools_by_name (before @ tc # after) [] w = (Inl (KeyError (name tc)), w')"
      by blast
    then have "BasicToolNode_call tools_by_name inputs w = (Inl (KeyError (name tc)), w')"
      using BasicToolNode_call_last [OF assms(1), of tools_by_name w] by simp
    then show "\<exists>w'. BasicToolNode_call tools_by_name inputs w = (Inl (KeyError (name tc)), w')"
      by blast
  qed
qed

text \<open>
  An instance: the first call is served by a tool that returns in the world of this
  dispatch only, the second names no registered tool, and the third is never reached.
\<close>

theorem dispatch_unknown_tool_witness:
  "\<exists>w'. BasicToolNode_call (BasicToolNode_init [flaky_tool])
       \<lparr>messages = [HumanMessage ''How many pages have two copies of Dune?'',
                    AIMessage '''' [lookup_request ''Dune'' ''call_1'',
                                    calculator_request ''2 * 412'' ''call_2'',
                                    lookup_request ''Dune Messiah'' ''call_3'']]\<rparr> 0
       = (Inl (KeyError (name (calculator_request ''2 * 412'' ''call_2''))), w')"
proof -
  let ?reg = "BasicToolNode_init [flaky_tool]"
  let ?tc = "calculator_request ''2 * 412'' ''call_2''"
  let ?before = "[lookup_request ''Dune'' ''call_1'']"
  let ?after = "[lookup_request ''Dune Messiah'' ''call_3'']"
  let ?inputs = "\<lparr>messages = [HumanMessage ''How many pages have two copies of Dune?'',
                    AIMessage '''' (?before @ ?tc # ?after)]\<rparr>"
  have h1: "messages ?inputs = [HumanMessage ''How many pages have two copies of Dune?'']
              @ [AIMessage '''' (?before @ ?tc # ?after)]"
    by simp
  have h2: "?reg (name ?tc) = None"
    by (simp add: BasicToolNode_init_def flaky_tool_def calculator_request_def)
  have h3: "invocations_return ?reg ?before 0"
    by (simp add: BasicToolNode_init_def flaky_tool_def lookup_request_def)
  from dispatch_unknown_tool [where tools_by_name = "?reg" and tc = "?tc", OF h1 h2,
      THEN conjunct2, THEN mp, OF h3]
  show ?thesis by simp
qed

text \<open>
  The exception is not always the one for the unknown name: a registered tool that
  raises earlier in the batch ends the dispatch first, with its own exception.
\<close>

theorem dispatch_unknown_after_raise_counterexample:
  "BasicToolNode_init [failing_tool] ''calculator'' = None \<and>
   BasicToolNode_call (BasicToolNode_init [failing_tool])
     \<lparr>messages = [HumanMessage ''How many pages have two copies of Dune?'',
                  AIMessage '''' [lookup_request ''Dune'' ''call_1'',
                                  calculator_request ''2 * 412'' ''call_2'']]\<rparr> 0
   = (Inl (Exception ''connection refused''), 1)"
  by (simp add: BasicToolNode_init_def BasicToolNode_call_def failing_tool_def
      lookup_request_def calculator_request_def)

section \<open>The search tool: properties\<close>

lemma registry_google:
  "BasicToolNode_init [google_search_tool self] ''google_search'' = Some (google_search_tool self)"
  by (simp add: BasicToolNode_init_def google_search_tool_def)

lemma run_search_fails:
  "search_wrapper self query w = (Inl e, w1) \<Longrightarrow> isinstance_Exception e \<Longrightarrow>
   GoogleSearchTool_run self query w = (Inr (''Error searching Google: '' @ str e), w1)"
  by (simp add: GoogleSearchTool_run_def GoogleSearchTool_run_body_def)

lemma run_llm_fails:
  "search_wrapper self query w = (Inr raw_results, w0) \<Longrightarrow>
   summarizer_llm self [HumanMessage (summary_prompt query raw_results)] w0 = (Inl e, w1) \<Longrightarrow>
   isinstance_Exception e \<Longrightarrow>
   GoogleSearchTool_run self query w = (Inr (''Error searching Google: '' @ str e), w1)"
  by (simp add: GoogleSearchTool_run_def GoogleSearchTool_run_body_def)

lemma run_raises_only_base:
  "GoogleSearchTool_run self query w = (Inl e', w') \<Longrightarrow> \<not> isinstance_Exception e'"
  by (auto simp add: GoogleSearchTool_run_def split: prod.splits sum.splits if_splits)

lemma search_request_served:
  "name tc = ''google_search'' \<Longrightarrow> args_schema self (args tc) = Inr query \<Longrightarrow>
   GoogleSearchTool_run self query w = (Inr result, w1) \<Longrightarrow>
   tool_calls_loop (BasicToolNode_init [google_search_tool self]) (tc # rest) outputs w
     = tool_calls_loop (BasicToolNode_init [google_search_tool self]) rest
         (outputs @ [ToolMessage result ''google_search'' (id' tc)]) w1"
  by (simp add: registry_google) (simp add: google_search_tool_def GoogleSearchTool_invoke_def)

text \<open>
  C3 (as amended). Let \<open>e\<close> be an exception of class \<open>Exception\<close>. If the search
  provider raises \<open>e\<close>, or it returns and the summarizing model raises \<open>e\<close>, then
  \<open>_run\<close> returns the text \<open>Error searching Google: \<close> followed by \<open>str(e)\<close>, which
  is not empty, and \<open>_run\<close> never lets an exception of class \<open>Exception\<close> out.
  Consequently the dispatch of a search request whose provider or model call raises
  \<open>e\<close> appends the tool message with that text and goes on with the remaining requests
  of the batch, whatever they are.
\<close>

theorem search_tool_absorbs_exceptions:
  assumes "isinstance_Exception e"
  shows "(search_wrapper self query w = (Inl e, w1) \<longrightarrow>
            GoogleSearchTool_run self query w = (Inr (''Error searching Google: '' @ str e), w1)) \<and>
         (search_wrapper self query w = (Inr raw_results, w0) \<and>
          summarizer_llm self [HumanMessage (summary_prompt query raw_results)] w0 = (Inl e, w1) \<longrightarrow>
            GoogleSearchTool_run self query w = (Inr (''Error searching Google: '' @ str e), w1)) \<and>
         ''Error searching Google: '' @ str e \<noteq> [] \<and>
         (GoogleSearchTool_run self query w = (Inl e', w') \<longrightarrow> \<not> isinstance_Exception e') \<and>
         (name tc = ''google_search'' \<and> args_schema self (args tc) = Inr query \<and>
          (search_wrapper self query w = (Inl e, w1) \<or>
           search_wrapper self query w = (Inr raw_results, w0) \<and>
           summarizer_llm self [HumanMessage (summary_prompt query raw_results)] w0 = (Inl e, w1)) \<longrightarrow>
            tool_calls_loop (BasicToolNode_init [google_search_tool self]) (tc # rest) outputs w
              = tool_calls_loop (BasicToolNode_init [google_search_tool self]) rest
                  (outputs @ [ToolMessage (''Error searching Google: '' @ str e) ''google_search'' (id' tc)]) w1)"
proof (intro conjI impI)
  assume "search_wrapper self query w = (Inl e, w1)"
  then show "GoogleSearchTool_run self query w = (Inr (''Error searching Google: '' @ str e), w1)"
    using assms by (rule run_search_fails)
next
  assume "search_wrapper self query w = (Inr raw_results, w0) \<and>
          summarizer_llm self [HumanMessage (summary_prompt query raw_results)] w0 = (Inl e, w1)"
  then show "GoogleSearchTool_run self query w = (Inr (''Error searching Google: '' @ str e), w1)"
    using assms by (simp add: run_llm_fails)
next
  show "''Error searching Google: '' @ str e \<noteq> []" by simp
next
  assume "GoogleSearchTool_run self query w = (Inl e', w')"
  then show "\<not> isinstance_Exception e'" by (rule run_raises_only_base)
next
  assume a: "name tc = ''google_search'' \<and> args_schema self (args tc) = Inr query \<and>
          (search_wrapper self query w = (Inl e, w1) \<or>
           search_wrapper self query w = (Inr raw_results, w0) \<and>
           summarizer_llm self [HumanMessage (summary_prompt query raw_results)] w0 = (Inl e, w1))"
  then have r: "GoogleSearchTool_run self query w = (Inr (''Error searching Google: '' @ str e), w1)"
    using assms by (auto simp add: run_search_fails run_llm_fails)
  from a have n: "name tc = ''google_search''" and q: "args_schema self (args tc) = Inr query"
    by simp_all
  show "tool_calls_loop (BasicToolNode_init [google_search_tool self]) (tc # rest) outputs w
              = tool_calls_loop (BasicToolNode_init [google_search_tool self]) rest
                  (outputs @ [ToolMessage (''Error searching Google: '' @ str e) ''google_search'' (id' tc)]) w1"
    using n q r by (rule search_request_served)
qed

text \<open>
  Instances: the provider fails; the provider answers and the summarizing model fails;
  two requests are dispatched while the provider fails on both, and each gets its tool
  message with the error text.
\<close>

theorem search_tool_absorbs_exceptions_witness:
  "GoogleSearchTool_run failing_search_tool ''space needle height'' 0
     = (Inr ''Error searching Google: quota exceeded'', 1) \<and>
   GoogleSearchTool_run failing_summarizer_tool ''space needle height'' 0
     = (Inr ''Error searching Google: deadline exceeded'', 2) \<and>
   BasicToolNode_call (BasicToolNode_init [google_search_tool failing_search_tool])
     \<lparr>messages = [HumanMessage ''Compare the Space Needle and the Eiffel Tower.'',
                  AIMessage '''' [search_request ''space needle height'' ''call_a'',
                                  search_request ''eiffel tower height'' ''call_b'']]\<rparr> 0
     = (Inr \<lparr>messages = [ToolMessage ''Error searching Google: quota exceeded'' ''google_search'' ''call_a'',
                          ToolMessage ''Error searching Google: quota exceeded'' ''google_search'' ''call_b'']\<rparr>, 2)"
proof -
  let ?reg = "BasicToolNode_init [google_search_tool failing_search_tool]"
  let ?a = "search_request ''space needle height'' ''call_a''"
  let ?b = "search_request ''eiffel tower height'' ''call_b''"
  have ex1: "isinstance_Exception (Exception ''quota exceeded'')" by simp
  have ex2: "isinstance_Exception (Exception ''deadline exceeded'')" by simp
  have s1: "search_wrapper failing_search_tool ''space needle height'' 0 = (Inl (Exception ''quota exceeded''), 1)"
    by (simp add: failing_search_tool_def failing_search_def)
  have s2: "search_wrapper failing_summarizer_tool ''space needle height'' 0
             = (Inr ''The Space Needle is 605 ft tall.'', 1) \<and>
            summarizer_llm failing_summarizer_tool
              [HumanMessage (summary_prompt ''space needle height'' ''The Space Needle is 605 ft tall.'')] 1
             = (Inl (Exception ''deadline exceeded''), 2)"
    by (simp add: failing_summarizer_tool_def fixed_search_def failing_llm_def)
  have r1: "GoogleSearchTool_run failing_search_tool ''space needle height'' 0
     = (Inr ''Error searching Google: quota exceeded'', 1)"
    using search_tool_absorbs_exceptions [OF ex1, THEN conjunct1, THEN mp, OF s1] by simp
  have r2: "GoogleSearchTool_run failing_summarizer_tool ''space needle height'' 0
     = (Inr ''Error searching Google: deadline exceeded'', 2)"
    using search_tool_absorbs_exceptions [OF ex2, THEN conjunct2, THEN conjunct1, THEN mp, OF s2] by simp
  have ha: "name ?a = ''google_search'' \<and> args_schema failing_search_tool (args ?a) = Inr ''space needle height'' \<and>
          (search_wrapper failing_search_tool ''space needle height'' 0 = (Inl (Exception ''quota exceeded''), 1) \<or>
           search_wrapper failing_search_tool ''space needle height'' 0 = (Inr [], 0) \<and>
           summarizer_llm failing_search_tool [HumanMessage (summary_prompt ''space needle height'' [])] 0
             = (Inl (Exception ''quota exceeded''), 1))"
    by (simp add: search_request_def failing_search_tool_def failing_search_def string_query_def)
  have hb: "name ?b = ''google_search'' \<and> args_schema failing_search_tool (args ?b) = Inr ''eiffel tower height'' \<and>
          (search_wrapper failing_search_tool ''eiffel tower height'' 1 = (Inl (Exception ''quota exceeded''), 2) \<or>
           search_wrapper failing_search_tool ''eiffel tower height'' 1 = (Inr [], 0) \<and>
           summarizer_llm failing_search_tool [HumanMessage (summary_prompt ''eiffel tower height'' [])] 0
             = (Inl (Exception ''quota exceeded''), 2))"
    by (simp add: search_request_def failing_search_tool_def failing_search_def string_query_def)
  note step = search_tool_absorbs_exceptions [OF ex1, THEN conjunct2, THEN conjunct2, THEN conjunct2,
      THEN conjunct2, THEN mp]
  have l1: "tool_calls_loop ?reg [?a, ?b] [] 0
     = tool_calls_loop ?reg [?b] [ToolMessage ''Error searching Google: quota exceeded'' ''google_search'' ''call_a''] 1"
    using step [OF ha, of "[?b]" "[]"] by (simp add: search_request_def)
  have l2: "tool_calls_loop ?reg [?b] [ToolMessage ''Error searching Google: quota exceeded'' ''google_search'' ''call_a''] 1
     = tool_calls_loop ?reg [] [ToolMessage ''Error searching Google: quota exceeded'' ''google_search'' ''call_a'',
          ToolMessage ''Error searching Google: quota exceeded'' ''google_search'' ''call_b''] 2"
    using step [OF hb, of "[]" "[ToolMessage ''Error searching Google: quota exceeded'' ''google_search'' ''call_a'']"]
    by (simp add: search_request_def)
  have r3: "BasicToolNode_call ?reg
     \<lparr>messages = [HumanMessage ''Compare the Space Needle and the Eiffel Tower.'', AIMessage '''' [?a, ?b]]\<rparr> 0
     = (Inr \<lparr>messages = [ToolMessage ''Error searching Google: quota exceeded'' ''google_search'' ''call_a'',
                          ToolMessage ''Error searching Google: quota exceeded'' ''google_search'' ''call_b'']\<rparr>, 2)"
  proof -
    have l: "tool_calls_loop ?reg [?a, ?b] [] 0
      = (Inr [ToolMessage ''Error searching Google: quota exceeded'' ''google_search'' ''call_a'',
              ToolMessage ''Error searching Google: quota exceeded'' ''google_search'' ''call_b''], 2)"
      by (simp only: l1 l2 tool_calls_loop.simps(1))
    show ?thesis
      by (simp add: BasicToolNode_call_def l del: tool_calls_loop.simps)
  qed
  show ?thesis using r1 r2 r3 by blast
qed

text \<open>
  For an exception outside class \<open>Exception\<close> the original statement fails: an
  interrupt from the keyboard during the provider call is not caught by
  \<open>except Exception\<close>; it leaves \<open>_run\<close> and ends the dispatch of the batch.
\<close>

theorem search_tool_interrupt_counterexample:
  "GoogleSearchTool_run interrupted_search_tool ''space needle height'' 0 = (Inl KeyboardInterrupt, 1) \<and>
   BasicToolNode_call (BasicToolNode_init [google_search_tool interrupted_search_tool])
     \<lparr>messages = [HumanMessage ''Compare the Space Needle and the Eiffel Tower.'',
                  AIMessage '''' [search_request ''space needle height'' ''call_a'',
                                  search_request ''eiffel tower height'' ''call_b'']]\<rparr> 0
     = (Inl KeyboardInterrupt, 1)"
  by (simp add: BasicToolNode_call_def BasicToolNode_init_def google_search_tool_def
      GoogleSearchTool_invoke_def GoogleSearchTool_run_def GoogleSearchTool_run_body_def
      interrupted_search_tool_def interrupted_search_def search_request_def string_query_def)

text \<open>
  C10. For every query, the asynchronous entry point \<open>_arun\<close> of the search tool gives
  exactly the result of the synchronous \<open>_run\<close>, and leaves the outside world as
  \<open>_run\<close> leaves it.
\<close>

theorem arun_eq_run:
  "GoogleSearchTool_arun self query w = GoogleSearchTool_run self query w"
  by (simp add: GoogleSearchTool_arun_def)

theorem arun_eq_run_witness:
  "GoogleSearchTool_arun failing_search_tool ''space needle'' 0
   = (Inr ''Error searching Google: quota exceeded'', 1)"
  using arun_eq_run [of failing_search_tool "''space needle''" "0::nat"]
  by (simp add: GoogleSearchTool_run_def GoogleSearchTool_run_body_def failing_search_tool_def
      failing_search_def)

section \<open>The routing decision: properties\<close>

text \<open>
  C2 (as amended). \<open>route_tools\<close> is a function of the last message alone: it returns
  \<open>tools\<close> if that message is an assistant message with at least one tool call and
  \<open>END\<close> otherwise, also when the last message is not an assistant message. It raises
  when there is no message: \<open>ValueError\<close> for a state, \<open>IndexError\<close> for a bare list.
\<close>

theorem route_tools_last_turn:
  "route_tools (StateInput \<lparr>messages = earlier @ [m]\<rparr>)
     = Inr (case m of AIMessage c tcs \<Rightarrow> (if tcs = [] then END else ''tools'') | _ \<Rightarrow> END) \<and>
   route_tools (ListInput (earlier @ [m]))
     = Inr (case m of AIMessage c tcs \<Rightarrow> (if tcs = [] then END else ''tools'') | _ \<Rightarrow> END) \<and>
   route_tools (StateInput \<lparr>messages = []\<rparr>)
     = Inl (ValueError ''No messages found in input state to tool_edge: {'messages': []}'') \<and>
   route_tools (ListInput []) = Inl (IndexError ''list index out of range'') \<and>
   ''tools'' \<noteq> END"
  by (cases m) (simp_all add: END_def)

text \<open>Instances: a pending search request routes to the tools, a final answer to the end.\<close>

theorem route_tools_last_turn_witness:
  "route_tools (StateInput \<lparr>messages = [HumanMessage ''How tall is the Space Needle?'',
                                         AIMessage '''' [search_request ''space needle height'' ''call_1'']]\<rparr>)
     = Inr ''tools'' \<and>
   route_tools (StateInput \<lparr>messages = [HumanMessage ''What is 2+2?'', AIMessage ''4'' []]\<rparr>)
     = Inr END"
  using route_tools_last_turn [of "[HumanMessage ''How tall is the Space Needle?'']"
          "AIMessage '''' [search_request ''space needle height'' ''call_1'']"]
        route_tools_last_turn [of "[HumanMessage ''What is 2+2?'']" "AIMessage ''4'' []"]
  by simp

text \<open>
  A last message that is not an assistant message does not make \<open>route_tools\<close> fail:
  the \<open>hasattr\<close> guard is false and the result is \<open>END\<close>, for a user message as for
  a tool message.
\<close>

theorem route_tools_non_assistant_counterexample:
  "route_tools (StateInput \<lparr>messages = [HumanMessage ''hello'']\<rparr>) = Inr END \<and>
   route_tools (StateInput \<lparr>messages = [AIMessage '''' [search_request ''x'' ''call_1''],
                                         ToolMessage ''result'' ''google_search'' ''call_1'']\<rparr>) = Inr END"
  by simp

section \<open>The chatbot node: properties\<close>

text \<open>
  C5. For every conversation state, one call of the chatbot node returns exactly one
  new message, an assistant message: whenever the model answers, the node returns the
  one-element list holding the answer, and whatever the node returns is a one-element
  list holding an assistant message. (When the model call raises, so does the node.)
\<close>

theorem chatbot_one_assistant_turn:
  "(llm (system_message # messages state) w = (Inr response, w') \<longrightarrow>
      chatbot llm state w = (Inr \<lparr>messages = [AIMessage (fst response) (snd response)]\<rparr>, w')) \<and>
   (chatbot llm state w = (Inr update, w') \<longrightarrow>
      (\<exists>c tcs. messages update = [AIMessage c tcs]) \<and> length (messages update) = 1)"
  by (auto simp add: chatbot_def split: prod.splits sum.splits)

theorem chatbot_one_assistant_turn_witness:
  "chatbot final_llm \<lparr>messages = [HumanMessage ''How tall is the Space Needle?'']\<rparr> 0
     = (Inr \<lparr>messages = [AIMessage ''605 ft'' []]\<rparr>, 1) \<and>
   length (messages \<lparr>messages = [AIMessage ''605 ft'' []]\<rparr>) = 1"
proof -
  have h: "final_llm (system_message # messages \<lparr>messages = [HumanMessage ''How tall is the Space Needle?'']\<rparr>) 0
            = (Inr (''605 ft'', []), 1)"
    by (simp add: final_llm_def)
  show ?thesis
    using chatbot_one_assistant_turn [of final_llm "\<lparr>messages = [HumanMessage ''How tall is the Space Needle?'']\<rparr>"
        0 "(''605 ft'', [])" 1 "\<lparr>messages = [AIMessage ''605 ft'' []]\<rparr>"] h
    by simp
qed

text \<open>
  C8. The chatbot node sends the model the system message followed by the history, and
  the system message is not persisted: the state after the step is the history followed
  by the one assistant message, the other fields of the state are unchanged, and the
  system message occurs in the new state only if it occurred in the old one.
\<close>

theorem chatbot_system_message_not_persisted:
  assumes "chatbot llm state w = (Inr update, w')"
  shows "(\<exists>response. llm (system_message # messages state) w = (Inr response, w') \<and>
            messages (apply_update state update)
              = messages state @ [AIMessage (fst response) (snd response)]) \<and>
         State.more (apply_update state update) = State.more state \<and>
         system_message \<notin> set (messages update) \<and>
         (system_message \<in> set (messages (apply_update state update))
            \<longleftrightarrow> system_message \<in> set (messages state))"
  using assms
  by (auto simp add: chatbot_def apply_update_def add_messages_def system_message_def
      split: prod.splits sum.splits)

text \<open>
  An instance with a model that insists on the system message coming first: it answers,
  and the system message is not in the state afterwards.
\<close>

theorem chatbot_system_message_not_persisted_witness:
  "messages (apply_update \<lparr>messages = [HumanMessage ''How tall is the Space Needle?'']\<rparr>
              \<lparr>messages = [AIMessage ''605 ft'' []]\<rparr>)
     = [HumanMessage ''How tall is the Space Needle?'', AIMessage ''605 ft'' []] \<and>
   system_message \<notin> set (messages (apply_update \<lparr>messages = [HumanMessage ''How tall is the Space Needle?'']\<rparr>
              \<lparr>messages = [AIMessage ''605 ft'' []]\<rparr>))"
proof -
  have h: "chatbot persona_llm \<lparr>messages = [HumanMessage ''How tall is the Space Needle?'']\<rparr> 0
            = (Inr \<lparr>messages = [AIMessage ''605 ft'' []]\<rparr>, 1)"
    by (simp add: chatbot_def persona_llm_def)
  show ?thesis
    using chatbot_system_message_not_persisted [OF h]
    by (simp add: system_message_def persona_llm_def)
qed

section \<open>The graph: properties\<close>

text \<open>
  The graph that \<open>create_chatbot_with_memory\<close> builds, and what one step of it does
  from each of its two nodes.
\<close>

lemma graph_nodes:
  "nodes (create_chatbot_with_memory llm search)
     = [(''chatbot'', chatbot llm),
        (''tools'', BasicToolNode_call (BasicToolNode_init [google_search_tool search]))]"
  by (simp add: create_chatbot_with_memory_def StateGraph_new_def add_node_def add_edge_def
      add_conditional_edges_def)

lemma graph_edges:
  "edges (create_chatbot_with_memory llm search)
     = [(''tools'', ''chatbot''), (START, ''chatbot''), (''chatbot'', END)]"
  by (simp add: create_chatbot_with_memory_def StateGraph_new_def add_node_def add_edge_def
      add_conditional_edges_def)

lemma graph_branches:
  "branches (create_chatbot_with_memory llm search)
     = [(''chatbot'', (\<lambda>state. route_tools (StateInput state)), [(''tools'', ''tools''), (END, END)])]"
  by (simp add: create_chatbot_with_memory_def StateGraph_new_def add_node_def add_edge_def
      add_conditional_edges_def)

lemma targets_chatbot:
  "targets (create_chatbot_with_memory llm search) ''chatbot''
       \<lparr>messages = earlier @ [AIMessage c tcs]\<rparr>
     = Inr (if tcs = [] then [END, END] else [END, ''tools''])"
  by (simp add: targets_def graph_edges graph_branches START_def END_def)

lemma targets_tools:
  "targets (create_chatbot_with_memory llm search) ''tools'' state = Inr [''chatbot'']"
  by (simp add: targets_def graph_edges graph_branches START_def END_def)

lemma chatbot_step:
  "superstep (create_chatbot_with_memory llm search) [''chatbot''] state w =
     (case llm (system_message # messages state) w of
        (Inl e, w1) \<Rightarrow> (Inl e, w1)
      | (Inr response, w1) \<Rightarrow>
          (Inr ([(''chatbot'', \<lparr>messages = [AIMessage (fst response) (snd response)]\<rparr>)],
                \<lparr>messages = messages state @ [AIMessage (fst response) (snd response)]\<rparr>,
                if snd response = [] then [] else [''tools'']), w1))"
proof -
  obtain res w1 where l: "llm (system_message # messages state) w = (res, w1)"
    by (cases "llm (system_message # messages state) w")
  show ?thesis
  proof (cases res)
    case (Inl e)
    then show ?thesis
      using l by (simp add: superstep_def graph_nodes chatbot_def)
  next
    case (Inr response)
    have a: "apply_update state \<lparr>messages = [AIMessage (fst response) (snd response)]\<rparr>
               = \<lparr>messages = messages state @ [AIMessage (fst response) (snd response)]\<rparr>"
      by (simp add: apply_update_def add_messages_def)
    show ?thesis
      using l Inr
      by (simp add: superstep_def graph_nodes chatbot_def a targets_chatbot END_def)
  qed
qed

lemma tools_step:
  "superstep (create_chatbot_with_memory llm search) [''tools''] state w =
     (case BasicToolNode_call (BasicToolNode_init [google_search_tool search]) state w of
        (Inl e, w1) \<Rightarrow> (Inl e, w1)
      | (Inr update, w1) \<Rightarrow>
          (Inr ([(''tools'', update)], \<lparr>messages = messages state @ messages update\<rparr>,
                [''chatbot'']), w1))"
proof -
  obtain res w1 where l: "BasicToolNode_call (BasicToolNode_init [google_search_tool search]) state w = (res, w1)"
    by (cases "BasicToolNode_call (BasicToolNode_init [google_search_tool search]) state w")
  show ?thesis
  proof (cases res)
    case (Inl e)
    then show ?thesis
      using l by (simp add: superstep_def graph_nodes)
  next
    case (Inr update)
    have a: "apply_update state update = \<lparr>messages = messages state @ messages update\<rparr>"
      by (simp add: apply_update_def add_messages_def)
    show ?thesis
      using l Inr
      by (simp add: superstep_def graph_nodes a targets_tools END_def)
  qed
qed

lemma entry_nodes:
  "stream_into (create_chatbot_with_memory llm search) recursion_limit input f acc w
     = stream_fold (create_chatbot_with_memory llm search) recursion_limit [''chatbot'']
         \<lparr>messages = messages input\<rparr> f acc w"
  by (simp add: stream_into_def graph_edges START_def END_def add_messages_def)

text \<open>A run of the program's graph: one search, then the answer.\<close>

lemma space_needle_run:
  "stream (create_chatbot_with_memory searching_llm working_search_tool) 25
     \<lparr>messages = [HumanMessage ''How tall is the Space Needle?'']\<rparr> 0
   = ((space_needle_events,
       Exhausted \<lparr>messages = [HumanMessage ''How tall is the Space Needle?'',
                              AIMessage '''' [search_request ''space needle height'' ''call_1''],
                              ToolMessage ''605 ft'' ''google_search'' ''call_1'',
                              AIMessage ''605 ft'' []]\<rparr>), 4)"
  by (simp add: stream_def entry_nodes eval_nat_numeral chatbot_step tools_step
      searching_llm_def system_message_def BasicToolNode_call_def BasicToolNode_init_def
      google_search_tool_def GoogleSearchTool_invoke_def GoogleSearchTool_run_def
      GoogleSearchTool_run_body_def working_search_tool_def string_query_def fixed_search_def
      final_llm_def search_request_def space_needle_events_def)

subsection \<open>The state only grows\<close>







subsection \<open>Control flow\<close>

lemma stream_fold_idle:
  "stream_fold g k [] state f acc w
     = ((acc, if k = 0 then RecursionLimit else Exhausted state), w)"
  by (cases k) simp_all

lemma ends_with_answer_Cons:
  "ends_with_answer events \<Longrightarrow> ends_with_answer (event # events)"
  by (simp add: ends_with_answer_def)

lemma flow_runs:
  "(\<forall>state acc w events end w'.
      stream_fold (create_chatbot_with_memory llm search) k [''chatbot''] state
          (\<lambda>event events. Inr (events @ [event])) acc w = ((events, end), w') \<longrightarrow>
      (\<exists>new. events = acc @ new \<and> flow ''chatbot'' new \<and>
         (\<forall>final. end = Exhausted final \<longrightarrow> ends_with_answer new))) \<and>
   (\<forall>state acc w events end w'.
      stream_fold (create_chatbot_with_memory llm search) k [''tools''] state
          (\<lambda>event events. Inr (events @ [event])) acc w = ((events, end), w') \<longrightarrow>
      (\<exists>new. events = acc @ new \<and> flow ''tools'' new \<and>
         (\<forall>final. end = Exhausted final \<longrightarrow> ends_with_answer new)))"
proof (induction k)
  case 0
  show ?case by simp
next
  case (Suc k)
  let ?G = "create_chatbot_with_memory llm search"
  let ?collect = "\<lambda>event events. Inr (events @ [event]) :: exn + (string \<times> State) list"
  from Suc.IH have ih_chatbot:
    "\<And>state acc w events end w'.
       stream_fold ?G k [''chatbot''] state ?collect acc w = ((events, end), w') \<Longrightarrow>
       \<exists>new. events = acc @ new \<and> flow ''chatbot'' new \<and>
         (\<forall>final. end = Exhausted final \<longrightarrow> ends_with_answer new)"
    by blast
  from Suc.IH have ih_tools:
    "\<And>state acc w events end w'.
       stream_fold ?G k [''tools''] state ?collect acc w = ((events, end), w') \<Longrightarrow>
       \<exists>new. events = acc @ new \<and> flow ''tools'' new \<and>
         (\<forall>final. end = Exhausted final \<longrightarrow> ends_with_answer new)"
    by blast
  show ?case
  proof (intro conjI allI impI)
    fix state acc w events "end" w'
    assume run: "stream_fold ?G (Suc k) [''chatbot''] state ?collect acc w = ((events, end), w')"
    obtain res w1 where l: "llm (system_message # messages state) w = (res, w1)"
      by (cases "llm (system_message # messages state) w")
    show "\<exists>new. events = acc @ new \<and> flow ''chatbot'' new \<and>
         (\<forall>final. end = Exhausted final \<longrightarrow> ends_with_answer new)"
    proof (cases res)
      case (Inl e)
      with run l have "events = acc" and "end = Raised e"
        by (simp_all add: chatbot_step)
      then show ?thesis by simp
    next
      case (Inr response)
      let ?ev = "(''chatbot'', \<lparr>messages = [AIMessage (fst response) (snd response)]\<rparr>)"
      let ?state1 = "\<lparr>messages = messages state @ [AIMessage (fst response) (snd response)]\<rparr>"
      show ?thesis
      proof (cases "snd response = []")
        case True
        from run l Inr True have "events = acc @ [?ev]"
          by (auto simp add: chatbot_step stream_fold_idle)
        moreover have "flow ''chatbot'' [?ev]" by simp
        moreover have "ends_with_answer [?ev]"
          using True by (simp add: ends_with_answer_def)
        ultimately show ?thesis by blast
      next
        case False
        from run l Inr False
        have "stream_fold ?G k [''tools''] ?state1 ?collect (acc @ [?ev]) w1 = ((events, end), w')"
          by (simp add: chatbot_step)
        from ih_tools [OF this] obtain new where
          n: "events = (acc @ [?ev]) @ new" and f: "flow ''tools'' new"
          and a: "\<forall>final. end = Exhausted final \<longrightarrow> ends_with_answer new"
          by blast
        have "events = acc @ (?ev # new)" using n by simp
        moreover have "flow ''chatbot'' (?ev # new)" using f False by simp
        moreover have "\<forall>final. end = Exhausted final \<longrightarrow> ends_with_answer (?ev # new)"
          using a ends_with_answer_Cons by blast
        ultimately show ?thesis by blast
      qed
    qed
  next
    fix state acc w events "end" w'
    assume run: "stream_fold ?G (Suc k) [''tools''] state ?collect acc w = ((events, end), w')"
    let ?reg = "BasicToolNode_init [google_search_tool search]"
    obtain res w1 where l: "BasicToolNode_call ?reg state w = (res, w1)"
      by (cases "BasicToolNode_call ?reg state w")
    show "\<exists>new. events = acc @ new \<and> flow ''tools'' new \<and>
         (\<forall>final. end = Exhausted final \<longrightarrow> ends_with_answer new)"
    proof (cases res)
      case (Inl e)
      with run l have "events = acc" and "end = Raised e"
        by (simp_all add: tools_step)
      then show ?thesis by simp
    next
      case (Inr update)
      let ?ev = "(''tools'', update)"
      let ?state1 = "\<lparr>messages = messages state @ messages update\<rparr>"
      from run l Inr
      have "stream_fold ?G k [''chatbot''] ?state1 ?collect (acc @ [?ev]) w1 = ((events, end), w')"
        by (simp add: tools_step)
      from ih_chatbot [OF this] obtain new where
        n: "events = (acc @ [?ev]) @ new" and f: "flow ''chatbot'' new"
        and a: "\<forall>final. end = Exhausted final \<longrightarrow> ends_with_answer new"
        by blast
      have "events = acc @ (?ev # new)" using n by simp
      moreover have "flow ''tools'' (?ev # new)" using f by simp
      moreover have "\<forall>final. end = Exhausted final \<longrightarrow> ends_with_answer (?ev # new)"
        using a ends_with_answer_Cons by blast
      ultimately show ?thesis by blast
    qed
  qed
qed

text \<open>
  C6. In the program's graph a run begins with the Decision Step. A Decision Step is
  followed by the Tool Dispatch Step if the message it emitted has tool calls, and by no
  node at all, which is the terminal state, exactly if it has none; a Tool Dispatch
  Step is always followed by the Decision Step. A run with no node active and a step
  left is over, with the state as it stands. The events of every run, however it ends,
  are in the order Decision, Dispatch, Decision, ..., a Dispatch event only after a
  Decision event whose message has tool calls; and a run that reaches its end without
  an exception has as its last event a Decision event whose message has no tool calls.
\<close>

theorem control_flow:
  "stream_into (create_chatbot_with_memory llm search) recursion_limit input f acc w
     = stream_fold (create_chatbot_with_memory llm search) recursion_limit [''chatbot'']
         \<lparr>messages = messages input\<rparr> f acc w \<and>
   (superstep (create_chatbot_with_memory llm search) [''chatbot''] state w
        = (Inr (events, state', next), w') \<longrightarrow>
      (\<exists>c tcs. events = [(''chatbot'', \<lparr>messages = [AIMessage c tcs]\<rparr>)] \<and>
         next = (if tcs = [] then [] else [''tools'']))) \<and>
   (superstep (create_chatbot_with_memory llm search) [''tools''] state w
        = (Inr (events, state', next), w') \<longrightarrow>
      (\<exists>update. events = [(''tools'', update)]) \<and> next = [''chatbot'']) \<and>
   stream_fold (create_chatbot_with_memory llm search) (Suc k) [] state f acc w
     = ((acc, Exhausted state), w) \<and>
   (stream (create_chatbot_with_memory llm search) recursion_limit input w
        = ((all_events, end), w'') \<longrightarrow>
      flow ''chatbot'' all_events \<and>
      (\<forall>final. end = Exhausted final \<longrightarrow> ends_with_answer all_events))"
proof (intro conjI impI)
  show "stream_into (create_chatbot_with_memory llm search) recursion_limit input f acc w
     = stream_fold (create_chatbot_with_memory llm search) recursion_limit [''chatbot'']
         \<lparr>messages = messages input\<rparr> f acc w"
    by (rule entry_nodes)
next
  assume "superstep (create_chatbot_with_memory llm search) [''chatbot''] state w
        = (Inr (events, state', next), w')"
  then show "\<exists>c tcs. events = [(''chatbot'', \<lparr>messages = [AIMessage c tcs]\<rparr>)] \<and>
         next = (if tcs = [] then [] else [''tools''])"
    by (auto simp add: chatbot_step split: prod.splits sum.splits if_splits)
next
  assume a: "superstep (create_chatbot_with_memory llm search) [''tools''] state w
        = (Inr (events, state', next), w')"
  then show "\<exists>update. events = [(''tools'', update)]"
    by (auto simp add: tools_step split: prod.splits sum.splits)
  from a show "next = [''chatbot'']"
    by (auto simp add: tools_step split: prod.splits sum.splits)
next
  show "stream_fold (create_chatbot_with_memory llm search) (Suc k) [] state f acc w
     = ((acc, Exhausted state), w)"
    by simp
next
  assume a: "stream (create_chatbot_with_memory llm search) recursion_limit input w
        = ((all_events, end), w'')"
  then have "stream_fold (create_chatbot_with_memory llm search) recursion_limit [''chatbot'']
         \<lparr>messages = messages input\<rparr> (\<lambda>event events. Inr (events @ [event])) [] w
        = ((all_events, end), w'')"
    by (simp add: stream_def entry_nodes)
  with flow_runs [of llm search recursion_limit]
  have "\<exists>new. all_events = [] @ new \<and> flow ''chatbot'' new \<and>
         (\<forall>final. end = Exhausted final \<longrightarrow> ends_with_answer new)"
    by blast
  then show "flow ''chatbot'' all_events"
    and "\<forall>final. end = Exhausted final \<longrightarrow> ends_with_answer all_events"
    by simp_all
qed

text \<open>An instance: the run above, with its three events.\<close>

theorem control_flow_witness:
  "flow ''chatbot'' space_needle_events \<and> ends_with_answer space_needle_events"
  using control_flow [of searching_llm working_search_tool 25
      "\<lparr>messages = [HumanMessage ''How tall is the Space Needle?'']\<rparr>" _ _ 0 _ _ _ _ _ _
      space_needle_events _ 4, THEN conjunct2, THEN conjunct2, THEN conjunct2, THEN conjunct2]
    space_needle_run
  by blast

section \<open>The interactive loop: properties\<close>

lemma append_last_empty:
  "messages (snd event) = [] \<Longrightarrow>
   append_last event acc = Inl (IndexError ''list index out of range'')"
  by (simp add: append_last_def)

lemma append_last_some:
  "messages (snd event) \<noteq> [] \<Longrightarrow>
   append_last event acc = Inr (acc\<lparr>messages := messages acc @ [last (messages (snd event))]\<rparr>)"
  by (simp add: append_last_def)

lemma feed_append_last_prefix:
  "feed append_last events acc = (acc', r) \<Longrightarrow> prefix (messages acc) (messages acc')"
proof (induction events arbitrary: acc)
  case Nil
  then show ?case by simp
next
  case (Cons event events)
  show ?case
  proof (cases "messages (snd event) = []")
    case True
    with Cons.prems show ?thesis by (simp add: append_last_empty)
  next
    case False
    let ?acc1 = "acc\<lparr>messages := messages acc @ [last (messages (snd event))]\<rparr>"
    from Cons.prems False have "feed append_last events ?acc1 = (acc', r)"
      by (simp add: append_last_some)
    from Cons.IH [OF this] have "prefix (messages acc @ [last (messages (snd event))]) (messages acc')"
      by simp
    then show ?thesis by (rule append_prefixD)
  qed
qed

lemma stream_fold_append_last_prefix:
  "stream_fold g k active state append_last acc w = ((acc', end), w') \<Longrightarrow>
   prefix (messages acc) (messages acc')"
proof (induction k arbitrary: active state acc w)
  case 0
  then show ?case by simp
next
  case (Suc k)
  show ?case
  proof (cases "active = []")
    case True
    with Suc.prems show ?thesis by simp
  next
    case False
    obtain res w1 where s: "superstep g active state w = (res, w1)"
      by (cases "superstep g active state w")
    show ?thesis
    proof (cases res)
      case (Inl e)
      with Suc.prems False s show ?thesis by simp
    next
      case (Inr r)
      obtain step_events state1 nxt where r: "r = (step_events, state1, nxt)"
        by (cases r)
      obtain acc1 raised where f: "feed append_last step_events acc = (acc1, raised)"
        by (cases "feed append_last step_events acc")
      from feed_append_last_prefix [OF f] have p1: "prefix (messages acc) (messages acc1)" .
      show ?thesis
      proof (cases raised)
        case (Some e)
        with Suc.prems False s Inr r f have "acc' = acc1" by simp
        with p1 show ?thesis by simp
      next
        case None
        with Suc.prems False s Inr r f
        have "stream_fold g k nxt state1 append_last acc1 w1 = ((acc', end), w')" by simp
        from Suc.IH [OF this] have "prefix (messages acc1) (messages acc')" .
        with p1 show ?thesis by (rule prefix_order.trans)
      qed
    qed
  qed
qed

lemma user_turn_appended:
  assumes "strip line \<noteq> []"
    and "lower (strip line) \<notin> set [''quit'', ''exit'', ''q'', ''clear'', ''history'']"
  shows "\<exists>ctl conversation_state' w'.
           loop_body g recursion_limit conversation_state line w = ((ctl, conversation_state', None), w') \<and>
           prefix (messages conversation_state @ [HumanMessage (strip line)]) (messages conversation_state')"
proof -
  let ?cs1 = "conversation_state\<lparr>messages := messages conversation_state @ [HumanMessage (strip line)]\<rparr>"
  obtain cs2 ending w2 where
    s: "stream_into g recursion_limit ?cs1 append_last ?cs1 w = ((cs2, ending), w2)"
    by (cases "stream_into g recursion_limit ?cs1 append_last ?cs1 w") auto
  then have "prefix (messages ?cs1) (messages cs2)"
    unfolding stream_into_def by (rule stream_fold_append_last_prefix)
  then have p: "prefix (messages conversation_state @ [HumanMessage (strip line)]) (messages cs2)"
    by simp
  have "\<exists>ctl. loop_body g recursion_limit conversation_state line w = ((ctl, cs2, None), w2)"
    using assms s by (cases ending) (simp_all add: loop_body_def Let_def)
  with p show ?thesis by blast
qed

text \<open>
  C9 (as amended). The loop reads a line with the white space around it stripped and
  compares it without regard to case. There are exactly three reserved commands:
  \<open>quit\<close>, \<open>exit\<close> or \<open>q\<close> leave the loop; \<open>clear\<close> resets the conversation state
  to the empty sequence; \<open>history\<close> prints the listing of the conversation state and
  leaves it as it is. A line that is empty once stripped is ignored. Every other line
  becomes a new user message, its content the stripped line, appended to the
  conversation state before the graph is run. \<open>history\<close> right after \<open>clear\<close> prints
  a listing of no lines.
\<close>

theorem command_surface:
  "(lower (strip line) \<in> set [''quit'', ''exit'', ''q''] \<longrightarrow>
      loop_body g recursion_limit conversation_state line w = ((Break, conversation_state, None), w)) \<and>
   (lower (strip line) = ''clear'' \<longrightarrow>
      loop_body g recursion_limit conversation_state line w = ((Continue, \<lparr>messages = []\<rparr>, None), w)) \<and>
   (lower (strip line) = ''history'' \<longrightarrow>
      loop_body g recursion_limit conversation_state line w
        = ((Continue, conversation_state, Some (history_lines (messages conversation_state))), w)) \<and>
   (strip line = [] \<longrightarrow>
      loop_body g recursion_limit conversation_state line w = ((Continue, conversation_state, None), w)) \<and>
   (strip line \<noteq> [] \<and>
    lower (strip line) \<notin> set [''quit'', ''exit'', ''q'', ''clear'', ''history''] \<longrightarrow>
      (\<exists>ctl conversation_state' w'.
         loop_body g recursion_limit conversation_state line w = ((ctl, conversation_state', None), w') \<and>
         prefix (messages conversation_state @ [HumanMessage (strip line)])
           (messages conversation_state'))) \<and>
   (lower (strip line) = ''clear'' \<and> lower (strip line') = ''history'' \<longrightarrow>
      interactive_loop g recursion_limit [line, line'] conversation_state w
        = ((Continue, \<lparr>messages = []\<rparr>, [[]]), w))"
proof (intro conjI impI)
  assume "lower (strip line) \<in> set [''quit'', ''exit'', ''q'']"
  then show "loop_body g recursion_limit conversation_state line w = ((Break, conversation_state, None), w)"
    by (simp add: loop_body_def Let_def)
next
  assume "lower (strip line) = ''clear''"
  then show "loop_body g recursion_limit conversation_state line w = ((Continue, \<lparr>messages = []\<rparr>, None), w)"
    by (simp add: loop_body_def Let_def)
next
  assume "lower (strip line) = ''history''"
  then show "loop_body g recursion_limit conversation_state line w
        = ((Continue, conversation_state, Some (history_lines (messages conversation_state))), w)"
    by (simp add: loop_body_def Let_def)
next
  assume "strip line = []"
  then show "loop_body g recursion_limit conversation_state line w = ((Continue, conversation_state, None), w)"
    by (simp add: loop_body_def Let_def lower_def)
next
  assume "strip line \<noteq> [] \<and>
    lower (strip line) \<notin> set [''quit'', ''exit'', ''q'', ''clear'', ''history'']"
  then show "\<exists>ctl conversation_state' w'.
         loop_body g recursion_limit conversation_state line w = ((ctl, conversation_state', None), w') \<and>
         prefix (messages conversation_state @ [HumanMessage (strip line)])
           (messages conversation_state')"
    using user_turn_appended [of line g recursion_limit conversation_state w] by blast
next
  assume "lower (strip line) = ''clear'' \<and> lower (strip line') = ''history''"
  then show "interactive_loop g recursion_limit [line, line'] conversation_state w
        = ((Continue, \<lparr>messages = []\<rparr>, [[]]), w)"
    by (simp add: loop_body_def Let_def history_lines_def)
qed

text \<open>
  An entire pass: the question is stripped and appended, the graph runs its three
  steps, and the last message of each event is appended in turn.
\<close>

lemma quit_line: "lower (strip ''  QUIT '') \<in> set [''quit'', ''exit'', ''q'']"
  by code_simp

lemma clear_line: "lower (strip ''Clear'') = ''clear''"
  by code_simp

lemma history_line_typed: "lower (strip ''history'') = ''history''"
  by code_simp

lemma empty_line: "strip [] = []"
  by code_simp

lemma blank_line: "strip ''   '' = []"
  by code_simp

lemma question_line:
  "strip ''How tall is the Space Needle?'' \<noteq> [] \<and>
   lower (strip ''How tall is the Space Needle?'')
     \<notin> set [''quit'', ''exit'', ''q'', ''clear'', ''history'']"
  by code_simp

lemma small_talk_listing:
  "history_lines (messages small_talk) = [''1. You: hi'', ''2. Assistant: hello'']"
  by code_simp

lemma question_pass:
  "loop_body (create_chatbot_with_memory searching_llm working_search_tool) 25 small_talk
       ''  How tall is the Space Needle? '' 0
     = ((Continue,
         \<lparr>messages = [HumanMessage ''hi'', AIMessage ''hello'' [],
                      HumanMessage ''How tall is the Space Needle?'',
                      AIMessage '''' [search_request ''space needle height'' ''call_1''],
                      ToolMessage ''605 ft'' ''google_search'' ''call_1'',
                      AIMessage ''605 ft'' []]\<rparr>, None), 4)"
proof -
  have s: "strip ''  How tall is the Space Needle? '' = ''How tall is the Space Needle?''"
    by code_simp
  have l: "lower ''How tall is the Space Needle?'' = ''how tall is the space needle?''"
    by code_simp
  show ?thesis
    by (simp add: loop_body_def s l small_talk_def entry_nodes eval_nat_numeral chatbot_step tools_step
      append_last_def
      searching_llm_def system_message_def BasicToolNode_call_def BasicToolNode_init_def
      google_search_tool_def GoogleSearchTool_invoke_def GoogleSearchTool_run_def
      GoogleSearchTool_run_body_def working_search_tool_def string_query_def fixed_search_def
      final_llm_def search_request_def)
qed

text \<open>
  Instances: one line of each kind, \<open>clear\<close> followed by \<open>history\<close>, and the pass
  above.
\<close>

theorem command_surface_witness:
  "loop_body (create_chatbot_with_memory searching_llm working_search_tool) 25 small_talk ''  QUIT '' 0
     = ((Break, small_talk, None), 0) \<and>
   loop_body (create_chatbot_with_memory searching_llm working_search_tool) 25 small_talk ''Clear'' 0
     = ((Continue, \<lparr>messages = []\<rparr>, None), 0) \<and>
   loop_body (create_chatbot_with_memory searching_llm working_search_tool) 25 small_talk ''history'' 0
     = ((Continue, small_talk, Some [''1. You: hi'', ''2. Assistant: hello'']), 0) \<and>
   loop_body (create_chatbot_with_memory searching_llm working_search_tool) 25 small_talk [] 0
     = ((Continue, small_talk, None), 0) \<and>
   (\<exists>ctl conversation_state' w'.
      loop_body (create_chatbot_with_memory searching_llm working_search_tool) 25 small_talk
          ''How tall is the Space Needle?'' 0 = ((ctl, conversation_state', None), w') \<and>
      prefix (messages small_talk @ [HumanMessage (strip ''How tall is the Space Needle?'')])
        (messages conversation_state')) \<and>
   interactive_loop (create_chatbot_with_memory searching_llm working_search_tool) 25
       [''Clear'', ''history''] small_talk 0
     = ((Continue, \<lparr>messages = []\<rparr>, [[]]), 0) \<and>
   loop_body (create_chatbot_with_memory searching_llm working_search_tool) 25 small_talk
       ''  How tall is the Space Needle? '' 0
     = ((Continue,
         \<lparr>messages = [HumanMessage ''hi'', AIMessage ''hello'' [],
                      HumanMessage ''How tall is the Space Needle?'',
                      AIMessage '''' [search_request ''space needle height'' ''call_1''],
                      ToolMessage ''605 ft'' ''google_search'' ''call_1'',
                      AIMessage ''605 ft'' []]\<rparr>, None), 4)"
proof -
  let ?G = "create_chatbot_with_memory searching_llm working_search_tool"
  note t = command_surface [where g = "?G" and recursion_limit = 25
      and conversation_state = small_talk and w = "0::nat"]
  have c1: "loop_body ?G 25 small_talk ''  QUIT '' 0 = ((Break, small_talk, None), 0)"
    using t [of "''  QUIT ''", THEN conjunct1] quit_line by blast
  have c2: "loop_body ?G 25 small_talk ''Clear'' 0 = ((Continue, \<lparr>messages = []\<rparr>, None), 0)"
    using t [of "''Clear''", THEN conjunct2, THEN conjunct1] clear_line by blast
  have c3: "loop_body ?G 25 small_talk ''history'' 0
     = ((Continue, small_talk, Some [''1. You: hi'', ''2. Assistant: hello'']), 0)"
    using t [of "''history''", THEN conjunct2, THEN conjunct2, THEN conjunct1]
      history_line_typed small_talk_listing by simp
  have c4: "loop_body ?G 25 small_talk [] 0 = ((Continue, small_talk, None), 0)"
    using t [of "[]", THEN conjunct2, THEN conjunct2, THEN conjunct2, THEN conjunct1] empty_line
    by blast
  have c5: "\<exists>ctl conversation_state' w'.
      loop_body ?G 25 small_talk ''How tall is the Space Needle?'' 0 = ((ctl, conversation_state', None), w') \<and>
      prefix (messages small_talk @ [HumanMessage (strip ''How tall is the Space Needle?'')])
        (messages conversation_state')"
    using t [of "''How tall is the Space Needle?''", THEN conjunct2, THEN conjunct2, THEN conjunct2,
        THEN conjunct2, THEN conjunct1] question_line by blast
  have c6: "interactive_loop ?G 25 [''Clear'', ''history''] small_talk 0
     = ((Continue, \<lparr>messages = []\<rparr>, [[]]), 0)"
    using t [of "''Clear''" "''history''", THEN conjunct2, THEN conjunct2, THEN conjunct2,
        THEN conjunct2, THEN conjunct2] clear_line history_line_typed by blast
  from c1 c2 c3 c4 c5 c6 question_pass show ?thesis by blast
qed

text \<open>
  A line of blanks is not empty and is none of the reserved commands, yet it does not
  become a user message: it is ignored, since the test for the empty line is made after
  stripping.
\<close>

theorem command_surface_blank_line_counterexample:
  "''   '' \<noteq> [] \<and>
   lower ''   '' \<notin> set [''quit'', ''exit'', ''q'', ''clear'', ''history''] \<and>
   loop_body (create_chatbot_with_memory searching_llm working_search_tool) 25 small_talk ''   '' 0
     = ((Continue, small_talk, None), 0)"
proof -
  have "lower ''   '' \<notin> set [''quit'', ''exit'', ''q'', ''clear'', ''history'']"
    by code_simp
  moreover have "loop_body (create_chatbot_with_memory searching_llm working_search_tool) 25
       small_talk ''   '' 0 = ((Continue, small_talk, None), 0)"
    by (simp add: loop_body_def blank_line lower_def)
  ultimately show ?thesis by simp
qed

end
